theory Spec2Isabelle
  imports Complex_Main "HOL-Library.AList" "HOL-Library.List_Lexorder" "HOL-Library.Char_ord"
begin

section \<open>Python and pandas values\<close>

text \<open>
  A cell of a pandas column. \<open>NA\<close> stands for every missing value (\<open>None\<close>, \<open>NaN\<close>,
  \<open>pandas.NA\<close>, \<open>NaT\<close>). Numbers (booleans, integers, decimals, finite floats) are
  compared by Python through their numeric value, so they are one constructor over the
  rationals. A \<open>Timedelta\<close> is a count of nanoseconds, as \<open>timedelta64[ns]\<close> stores it.
  A \<open>Timestamp\<close> is the wall-clock instant in nanoseconds since the epoch together with
  its \<open>tzinfo\<close>: \<open>None\<close> when naive, otherwise the offset from UTC in minutes.
\<close>

datatype cell =
    NA
  | Number rat
  | Timedelta int
  | Timestamp int "int option"
  | Str string

text \<open>
  A dataframe of the write path: the named levels of its index and its columns, both in
  order, each with its values. The default, unnamed index is the empty list of levels.
\<close>

record DataFrame =
  index :: "(string \<times> cell list) list"
  columns :: "(string \<times> cell list) list"

definition index_names :: "DataFrame \<Rightarrow> string list" where
  "index_names df = map fst (index df)"

definition column_names :: "DataFrame \<Rightarrow> string list" where
  "column_names df = map fst (columns df)"

text \<open>Python's \<open>any\<close> over a sequence of names: a name is truthy unless it is empty.\<close>

definition py_any :: "string list \<Rightarrow> bool" where
  "py_any xs = list_ex (\<lambda>x. x \<noteq> []) xs"

text \<open>Python's \<open>sep.join(xs)\<close>.\<close>

fun join :: "string \<Rightarrow> string list \<Rightarrow> string" where
  "join sep [] = []"
| "join sep [x] = x"
| "join sep (x # y # ys) = x @ sep @ join sep (y # ys)"

text \<open>Python's \<open>str\<close> of a non-negative integer: its decimal digits.\<close>

definition digit_char :: "nat \<Rightarrow> char" where
  "digit_char d = ''0123456789'' ! d"

function str_nat :: "nat \<Rightarrow> string" where
  "str_nat n = (if n < 10 then [digit_char n] else str_nat (n div 10) @ [digit_char (n mod 10)])"
  by pat_completeness auto
termination
  by (relation "measure id") auto

text \<open>The errors the modelled functions raise.\<close>

datatype error =
    ValueError_delete_requires
  | ValueError_time_out_of_range "string list"
  | ValueError_Timestamp
  | ValueError_reset_index
  | KeyError
  | TypeError
  | AttributeError
  | ValueError_unpack
  | ValueError_empty_sequence
  | ValueError_no_results
  | ValueError_astype
  | SQLTableDoesNotExist
  | SQLColumnDoesNotExist "string list"
  | UndefinedConversionRule "string list"
  | DataframeColumnInvalidValue "string list"
  | SQLInsufficientColumnSize "string list"
  | SQLNonUnicodeTypeColumn
  | Collaborator_error

text \<open>
  What a cursor has been asked to do, in order: a statement executed with its bound
  parameters, a batch statement with its rows, a commit.
\<close>

datatype action =
    Execute string "string list"
  | Executemany string "cell list list"
  | Commit

section \<open>The merge statement (write/merge.py)\<close>

definition sq :: string where
  "sq = [CHR 0x27]"

text \<open>\<open>[str(x) for x in list(range(0, len(cols)))]\<close>\<close>

definition alias_of :: "'a list \<Rightarrow> string list" where
  "alias_of cols = map str_nat [0..<length cols]"

definition alias_conditions :: "string list option \<Rightarrow> string list" where
  "alias_conditions delete_requires =
     (case delete_requires of None \<Rightarrow> [] | Some dr \<Rightarrow> alias_of dr)"

definition declare_syntax :: "string list \<Rightarrow> string list \<Rightarrow> string list \<Rightarrow> string list \<Rightarrow> string" where
  "declare_syntax am au ai ac =
     join ''\<newline>''
       (map (\<lambda>x. ''DECLARE @Match_'' @ x @ '' SYSNAME = ?;'') am
        @ map (\<lambda>x. ''DECLARE @Update_'' @ x @ '' SYSNAME = ?;'') au
        @ map (\<lambda>x. ''DECLARE @Insert_'' @ x @ '' SYSNAME = ?;'') ai
        @ map (\<lambda>x. ''DECLARE @Subset_'' @ x @ '' SYSNAME = ?;'') ac)"

definition match_syntax :: "string list \<Rightarrow> string" where
  "match_syntax am =
     join (''+'' @ sq @ '' AND '' @ sq @ ''+'')
       (map (\<lambda>x. sq @ ''_target.'' @ sq @ ''+'' @ x @ ''+'' @ sq @ ''=_source.'' @ sq @ ''+'' @ x)
          (map (\<lambda>x. ''QUOTENAME(@Match_'' @ x @ '')'') am))"

definition update_syntax :: "bool \<Rightarrow> string list \<Rightarrow> string" where
  "update_syntax include_metadata_timestamps au =
     (let update_syntax =
        join (''+'' @ sq @ '','' @ sq @ ''+'')
          (map (\<lambda>x. x @ ''+'' @ sq @ ''=_source.'' @ sq @ ''+'' @ x)
             (map (\<lambda>x. ''QUOTENAME(@Update_'' @ x @ '')'') au))
      in if include_metadata_timestamps
         then ''+'' @ sq @ ''_time_update=GETDATE(), '' @ sq @ ''+'' @ update_syntax
         else update_syntax)"

definition insert_syntax :: "bool \<Rightarrow> string list \<Rightarrow> string" where
  "insert_syntax include_metadata_timestamps ai =
     (let insert_syntax =
        join (''+'' @ sq @ '','' @ sq @ ''+'') (map (\<lambda>x. ''QUOTENAME(@Insert_'' @ x @ '')'') ai)
      in if include_metadata_timestamps
         then ''+'' @ sq @ ''_time_insert, '' @ sq @ ''+'' @ insert_syntax
         else insert_syntax)"

definition insert_values_syntax :: "bool \<Rightarrow> string list \<Rightarrow> string" where
  "insert_values_syntax include_metadata_timestamps ai =
     (let insert_values =
        join (''+'' @ sq @ '','' @ sq @ ''+'')
          (map (\<lambda>x. sq @ ''_source.'' @ sq @ ''+QUOTENAME(@Insert_'' @ x @ '')'') ai)
      in if include_metadata_timestamps
         then ''+'' @ sq @ ''GETDATE(), '' @ sq @ ''+'' @ insert_values
         else insert_values)"

definition delete_syntax :: "bool \<Rightarrow> string list \<Rightarrow> string" where
  "delete_syntax upsert ac =
     (if \<not> upsert then
        (let conditions_syntax =
           join '' + ''
             (map (\<lambda>x. sq @ ''AND _target.'' @ sq @ ''+QUOTENAME(@Subset_'' @ x
                        @ '')+'' @ sq @ '' IN (SELECT '' @ sq @ ''+QUOTENAME(@Subset_'' @ x
                        @ '')+'' @ sq @ '' FROM '' @ sq @ ''+QUOTENAME(@TableTemp)+'' @ sq @ '')'' @ sq) ac)
         in sq @ '' WHEN NOT MATCHED BY SOURCE '' @ sq @ ''+'' @ conditions_syntax
            @ ''+'' @ sq @ '' THEN DELETE'' @ sq)
      else sq @ sq)"

definition parameters_syntax :: "string list \<Rightarrow> string list \<Rightarrow> string list \<Rightarrow> string list \<Rightarrow> string" where
  "parameters_syntax am au ai ac =
     join '', ''
       (map (\<lambda>x. ''@Match_'' @ x @ '' SYSNAME'') am
        @ map (\<lambda>x. ''@Update_'' @ x @ '' SYSNAME'') au
        @ map (\<lambda>x. ''@Insert_'' @ x @ '' SYSNAME'') ai
        @ map (\<lambda>x. ''@Subset_'' @ x @ '' SYSNAME'') ac)"

definition values_syntax :: "string list \<Rightarrow> string list \<Rightarrow> string list \<Rightarrow> string list \<Rightarrow> string" where
  "values_syntax am au ai ac =
     join '', ''
       (map (\<lambda>x. ''@Match_'' @ x @ ''=@Match_'' @ x) am
        @ map (\<lambda>x. ''@Update_'' @ x @ ''=@Update_'' @ x) au
        @ map (\<lambda>x. ''@Insert_'' @ x @ ''=@Insert_'' @ x) ai
        @ map (\<lambda>x. ''@Subset_'' @ x @ ''=@Subset_'' @ x) ac)"

text \<open>The template of the statement, with the eight fields \<open>str.format\<close> fills in.\<close>

definition statement_format ::
  "string \<Rightarrow> string \<Rightarrow> string \<Rightarrow> string \<Rightarrow> string \<Rightarrow> string \<Rightarrow> string \<Rightarrow> string \<Rightarrow> string" where
  "statement_format declare match_s update_s insert_s insert_v delete_s parameters vals =
     ''\<newline>''
     @ ''            DECLARE @SQLStatement AS NVARCHAR(MAX);\<newline>''
     @ ''            DECLARE @TableName SYSNAME = ?;\<newline>''
     @ ''            DECLARE @TableTemp SYSNAME = ?;\<newline>''
     @ ''            '' @ declare @ ''\<newline>''
     @ ''\<newline>''
     @ ''            SET @SQLStatement =\<newline>''
     @ ''            N'' @ sq @ '' MERGE '' @ sq @ ''+QUOTENAME(@TableName)+'' @ sq @ '' AS _target '' @ sq @ ''\<newline>''
     @ ''            +'' @ sq @ '' USING '' @ sq @ ''+QUOTENAME(@TableTemp)+'' @ sq @ '' AS _source '' @ sq @ ''\<newline>''
     @ ''            +'' @ sq @ '' ON ('' @ sq @ ''+'' @ match_s @ ''+'' @ sq @ '') '' @ sq @ ''\<newline>''
     @ ''            +'' @ sq @ '' WHEN MATCHED THEN UPDATE SET '' @ sq @ ''+'' @ update_s @ ''\<newline>''
     @ ''            +'' @ sq @ '' WHEN NOT MATCHED THEN INSERT ('' @ sq @ ''+'' @ insert_s @ ''+'' @ sq @ '')'' @ sq @ ''\<newline>''
     @ ''            +'' @ sq @ '' VALUES ('' @ sq @ ''+'' @ insert_v @ ''+'' @ sq @ '')'' @ sq @ ''\<newline>''
     @ ''            +'' @ delete_s @ ''+'' @ sq @ '';'' @ sq @ ''\<newline>''
     @ ''\<newline>''
     @ ''            EXEC sp_executesql\<newline>''
     @ ''                @SQLStatement,\<newline>''
     @ ''                N'' @ sq @ ''@TableName SYSNAME, @TableTemp SYSNAME, '' @ parameters @ sq @ '',\<newline>''
     @ ''                @TableName=@TableName, @TableTemp=@TableTemp, '' @ vals @ '';\<newline>''
     @ ''        ''"

text \<open>
  Lines 69 to 180 of \<open>merge.merge\<close>: the text of the statement, from the settings and the
  four lists of column names.
\<close>

definition merge_statement ::
  "bool \<Rightarrow> bool \<Rightarrow> string list \<Rightarrow> string list \<Rightarrow> string list \<Rightarrow> string list option \<Rightarrow> string" where
  "merge_statement include_metadata_timestamps upsert match_columns update_columns insert_columns
       delete_requires =
     (let alias_match = alias_of match_columns;
          alias_update = alias_of update_columns;
          alias_insert = alias_of insert_columns;
          alias_cond = alias_conditions delete_requires
      in statement_format
           (declare_syntax alias_match alias_update alias_insert alias_cond)
           (match_syntax alias_match)
           (update_syntax include_metadata_timestamps alias_update)
           (insert_syntax include_metadata_timestamps alias_insert)
           (insert_values_syntax include_metadata_timestamps alias_insert)
           (delete_syntax upsert alias_cond)
           (parameters_syntax alias_match alias_update alias_insert alias_cond)
           (values_syntax alias_match alias_update alias_insert alias_cond))"

text \<open>Lines 183 to 197: the values bound to the placeholders of the statement.\<close>

definition merge_args ::
  "string \<Rightarrow> string \<Rightarrow> string list \<Rightarrow> string list \<Rightarrow> string list \<Rightarrow> string list option \<Rightarrow> string list" where
  "merge_args table_name temp_name match_columns update_columns insert_columns delete_requires =
     (case delete_requires of
        None \<Rightarrow> [table_name, temp_name] @ match_columns @ update_columns @ insert_columns
      | Some dr \<Rightarrow> [table_name, temp_name] @ match_columns @ update_columns @ insert_columns @ dr)"

text \<open>
  \<open>merge.merge\<close>. Two collaborators defined in other modules are parameters of the
  model: \<open>source_table\<close> (the method \<open>_source_table\<close> of the class \<open>insert\<close>, which
  stages the dataframe and may use the cursor) and \<open>escape\<close> (\<open>dynamic.escape\<close>, which
  is given the cursor and a name and returns the name quoted). Both may use the cursor and
  may fail. The cursor is the list of actions it has received.
\<close>

definition merge ::
  "(string \<Rightarrow> DataFrame \<Rightarrow> action list \<Rightarrow> string list option \<Rightarrow> string list option
      \<Rightarrow> (error + ('schema \<times> DataFrame \<times> string list \<times> string)) \<times> action list)
   \<Rightarrow> (action list \<Rightarrow> string \<Rightarrow> (error + string) \<times> action list)
   \<Rightarrow> bool \<Rightarrow> action list
   \<Rightarrow> string \<Rightarrow> DataFrame \<Rightarrow> string list option \<Rightarrow> bool \<Rightarrow> string list option
   \<Rightarrow> (error + DataFrame) \<times> action list" where
  "merge source_table escape include_metadata_timestamps cursor
         table_name dataframe match_columns upsert delete_requires =
     (if delete_requires \<noteq> None \<and> upsert then (Inl ValueError_delete_requires, cursor)
      else
        let additional_columns =
              (if include_metadata_timestamps then Some [''_time_update'', ''_time_insert''] else None)
        in case source_table table_name dataframe cursor match_columns additional_columns of
             (Inl e, cursor1) \<Rightarrow> (Inl e, cursor1)
           | (Inr (schema, dataframe1, match_columns1, temp_name), cursor1) \<Rightarrow>
               let update_columns = filter (\<lambda>c. c \<notin> set match_columns1) (column_names dataframe1);
                   insert_columns =
                     (if py_any (index_names dataframe1)
                      then index_names dataframe1 @ column_names dataframe1
                      else column_names dataframe1);
                   statement = merge_statement include_metadata_timestamps upsert
                                 match_columns1 update_columns insert_columns delete_requires;
                   args = merge_args table_name temp_name match_columns1 update_columns
                            insert_columns delete_requires
               in case escape (cursor1 @ [Execute statement args]) temp_name of
                    (Inl e, cursor2) \<Rightarrow> (Inl e, cursor2)
                  | (Inr temp_name1, cursor2) \<Rightarrow>
                      (Inr dataframe1,
                       cursor2 @ [Execute (''DROP TABLE '' @ temp_name1) [], Commit]))"

section \<open>The type registry (conversion_rules.py)\<close>

text \<open>The constants of \<open>pyodbc\<close> the registry refers to.\<close>

datatype odbc =
    SQL_BIT | SQL_TINYINT | SQL_SMALLINT | SQL_INTEGER | SQL_BIGINT | SQL_FLOAT
  | SQL_SS_TIME2 | SQL_TYPE_DATE | SQL_TYPE_TIMESTAMP | SQL_VARCHAR | SQL_WVARCHAR

record rule =
  sql_type :: string
  sql_category :: string
  min_value :: cell
  max_value :: cell
  pandas_type :: string
  odbc_type :: odbc
  odbc_size :: int
  odbc_precision :: int

definition day_ns :: int where
  "day_ns = 86400000000000"

text \<open>
  \<open>pd.Timestamp.min\<close> and \<open>pd.Timestamp.max\<close> of nanosecond resolution, in nanoseconds
  since the epoch.
\<close>

definition Timestamp_min :: int where
  "Timestamp_min = - (2 ^ 63) + 1"

definition Timestamp_max :: int where
  "Timestamp_max = 2 ^ 63 - 1"

text \<open>\<open>pd.Timestamp(t.date())\<close>: midnight of the day of \<open>t\<close>.\<close>

definition date_of :: "int \<Rightarrow> int" where
  "date_of t = (t div day_ns) * day_ns"

text \<open>
  \<open>1.79 ** 308\<close>, as the exact power; the source computes it in double precision.
\<close>

definition float_bound :: rat where
  "float_bound = (179 / 100) ^ 308"

definition rules :: "rule list" where
  "rules =
    [ \<lparr> sql_type = ''bit'', sql_category = ''boolean'',
        min_value = Number 0, max_value = Number 1,
        pandas_type = ''boolean'', odbc_type = SQL_BIT, odbc_size = 1, odbc_precision = 0 \<rparr>,
      \<lparr> sql_type = ''tinyint'', sql_category = ''exact numeric'',
        min_value = Number 0, max_value = Number 255,
        pandas_type = ''UInt8'', odbc_type = SQL_TINYINT, odbc_size = 1, odbc_precision = 0 \<rparr>,
      \<lparr> sql_type = ''smallint'', sql_category = ''exact numeric'',
        min_value = Number (- (2 ^ 15)), max_value = Number (2 ^ 15 - 1),
        pandas_type = ''Int16'', odbc_type = SQL_SMALLINT, odbc_size = 2, odbc_precision = 0 \<rparr>,
      \<lparr> sql_type = ''int'', sql_category = ''exact numeric'',
        min_value = Number (- (2 ^ 31)), max_value = Number (2 ^ 31 - 1),
        pandas_type = ''Int32'', odbc_type = SQL_INTEGER, odbc_size = 4, odbc_precision = 0 \<rparr>,
      \<lparr> sql_type = ''bigint'', sql_category = ''exact numeric'',
        min_value = Number (- (2 ^ 63)), max_value = Number (2 ^ 63 - 1),
        pandas_type = ''Int64'', odbc_type = SQL_BIGINT, odbc_size = 8, odbc_precision = 0 \<rparr>,
      \<lparr> sql_type = ''float'', sql_category = ''approximate numeric'',
        min_value = Number (- float_bound), max_value = Number float_bound,
        pandas_type = ''float64'', odbc_type = SQL_FLOAT, odbc_size = 8, odbc_precision = 53 \<rparr>,
      \<lparr> sql_type = ''time'', sql_category = ''date time'',
        min_value = Timedelta 0, max_value = Timedelta 86399999999900,
        pandas_type = ''timedelta64[ns]'', odbc_type = SQL_SS_TIME2, odbc_size = 16,
        odbc_precision = 7 \<rparr>,
      \<lparr> sql_type = ''date'', sql_category = ''date time'',
        min_value = Timestamp (date_of (Timestamp_min + day_ns)) None,
        max_value = Timestamp (date_of Timestamp_max) None,
        pandas_type = ''datetime64[ns]'', odbc_type = SQL_TYPE_DATE, odbc_size = 10,
        odbc_precision = 0 \<rparr>,
      \<lparr> sql_type = ''datetime2'', sql_category = ''date time'',
        min_value = Timestamp Timestamp_min None, max_value = Timestamp Timestamp_max None,
        pandas_type = ''datetime64[ns]'', odbc_type = SQL_TYPE_TIMESTAMP, odbc_size = 27,
        odbc_precision = 7 \<rparr>,
      \<lparr> sql_type = ''varchar'', sql_category = ''character string'',
        min_value = Number 1, max_value = Number 0,
        pandas_type = ''string'', odbc_type = SQL_VARCHAR, odbc_size = 0, odbc_precision = 0 \<rparr>,
      \<lparr> sql_type = ''nvarchar'', sql_category = ''character string'',
        min_value = Number 1, max_value = Number 0,
        pandas_type = ''string'', odbc_type = SQL_WVARCHAR, odbc_size = 0, odbc_precision = 0 \<rparr> ]"

text \<open>
  The registry is consulted by a left join on \<open>sql_type\<close>; its keys are distinct, so the
  join is the lookup of the first (and only) entry of that name.
\<close>

definition lookup :: "string \<Rightarrow> rule option" where
  "lookup t = find (\<lambda>r. sql_type r = t) rules"

text \<open>
  A row of the schema that \<open>get_schema\<close> returns: the fields of the rule joined to the
  column and the fields of the column itself. The schema is keyed by column name.
\<close>

record schema_row = rule +
  data_type :: int
  column_size :: int
  decimal_digits :: int
  is_nullable :: bool
  ss_is_identity :: bool
  pk_seq :: "int option"
  pk_name :: "string option"

type_synonym schema = "(string \<times> schema_row) list"

section \<open>Precision adjustment on the write path (conversion.py)\<close>

text \<open>
  The functions \<open>prepare_time\<close> to \<open>prepare_numeric\<close> read and assign whole columns of
  two frames, \<open>prepped\<close> and \<open>dataframe\<close>. A frame is the list of its columns in order;
  selecting a column that is absent is a \<open>KeyError\<close>, assigning one replaces it in place
  or appends it. Rows are matched by position: \<open>prepare_values\<close> builds both frames from
  the same dataframe, so they have the same row labels.
\<close>

type_synonym frame = "(string \<times> cell list) list"

definition has_columns :: "frame \<Rightarrow> string list \<Rightarrow> bool" where
  "has_columns f cs = list_all (\<lambda>c. map_of f c \<noteq> None) cs"

definition getcol :: "frame \<Rightarrow> string \<Rightarrow> cell list" where
  "getcol f c = (case map_of f c of Some vs \<Rightarrow> vs | None \<Rightarrow> [])"

text \<open>
  The pieces of pandas and of Python that the adjustment calls and that are parameters of
  the model: the text of a value under \<open>astype("str")\<close>; the constructor
  \<open>pd.Timestamp\<close> from broken-down fields, given the instant of the fields down to the
  microsecond, the \<open>nanosecond\<close> argument and the \<open>tzinfo\<close>, with \<open>None\<close> when it
  raises \<open>ValueError\<close>; the built-in \<open>round(x, ndigits)\<close>; the call
  \<open>replace([pd.NA], None)\<close> on a column; and the two regular-expression replacements of
  \<open>prepare_datetimeoffset\<close>.
\<close>

record library =
  astype_str :: "cell \<Rightarrow> string"
  Timestamp_new :: "int \<Rightarrow> int \<Rightarrow> int option \<Rightarrow> cell option"
  py_round :: "cell \<Rightarrow> int \<Rightarrow> cell"
  replace_NA :: "cell list \<Rightarrow> cell list"
  re_sub_padding :: "string \<Rightarrow> string"
  re_sub_utc :: "string \<Rightarrow> string"

datatype warning =
    Warning_time "string list"
  | Warning_datetime "string list"
  | Warning_datetime2 "string list"
  | Warning_datetimeoffset "string list"
  | Warning_numeric string int

text \<open>\<open>schema[schema["sql_type"].isin(types)].index\<close>\<close>

definition columns_of_type :: "string list \<Rightarrow> schema \<Rightarrow> string list" where
  "columns_of_type types schema = map fst (filter (\<lambda>(c, r). sql_type r \<in> set types) schema)"

definition is_timedelta :: "cell \<Rightarrow> bool" where
  "is_timedelta v = (case v of NA \<Rightarrow> True | Timedelta t \<Rightarrow> True | _ \<Rightarrow> False)"

definition is_timestamp :: "cell \<Rightarrow> bool" where
  "is_timestamp v = (case v of NA \<Rightarrow> True | Timestamp t tz \<Rightarrow> True | _ \<Rightarrow> False)"

text \<open>
  The columns of a temporal SQL type hold \<open>timedelta64[ns]\<close> or \<open>datetime64[ns]\<close> data.
  Where a cell of another kind stands in such a column, the comparisons and the \<open>.dt\<close>
  accessor of the source raise; the model returns \<open>TypeError\<close>.
\<close>

definition all_cells :: "(cell \<Rightarrow> bool) \<Rightarrow> frame \<Rightarrow> string list \<Rightarrow> bool" where
  "all_cells P f cs = list_all (\<lambda>c. list_all P (getcol f c)) cs"

text \<open>The columns of \<open>cs\<close> in which \<open>P\<close> holds of some value: \<open>f[cs].apply(lambda x: any(P(x)))\<close>.\<close>

definition columns_with :: "(cell \<Rightarrow> bool) \<Rightarrow> frame \<Rightarrow> string list \<Rightarrow> string list" where
  "columns_with P f cs = filter (\<lambda>c. list_ex P (getcol f c)) cs"

text \<open>
  \<open>round(n / 100)\<close> for an integer \<open>n\<close>: Python rounds the quotient half to even. The
  quotient of the double-precision division lies on the same side of every half-integer
  as the exact one, and equals it at a half-integer, so integer arithmetic gives the result.
\<close>

definition round_div_100 :: "int \<Rightarrow> int" where
  "round_div_100 n =
     (let q = n div 100; r = n mod 100
      in if r < 50 then q else if 50 < r then q + 1 else if even q then q else q + 1)"

subsection \<open>\<open>prepare_time\<close>\<close>

definition time_out_of_range :: "cell \<Rightarrow> bool" where
  "time_out_of_range v = (case v of Timedelta t \<Rightarrow> day_ns \<le> t \<or> t < 0 | _ \<Rightarrow> False)"

text \<open>\<open>x.dt.nanoseconds % 100 > 0\<close>: the nanoseconds component is the part below a microsecond.\<close>

definition timedelta_truncated :: "cell \<Rightarrow> bool" where
  "timedelta_truncated v = (case v of Timedelta t \<Rightarrow> 0 < (t mod 1000) mod 100 | _ \<Rightarrow> False)"

text \<open>
  The value the source rebuilds from \<open>x.components\<close>. The components of a Timedelta are
  days, hours, minutes, seconds, milliseconds, microseconds and nanoseconds, the last three
  below 1000 each; the source passes days, hours, minutes, seconds, microseconds and the
  rounded nanoseconds to \<open>pd.Timedelta\<close>, which adds them up.
\<close>

definition round_timedelta :: "cell \<Rightarrow> cell" where
  "round_timedelta v =
     (case v of
        Timedelta t \<Rightarrow>
          (let days = t div day_ns;
               hours = (t mod day_ns) div 3600000000000;
               minutes = (t mod 3600000000000) div 60000000000;
               seconds = (t mod 60000000000) div 1000000000;
               microseconds = (t mod 1000000) div 1000;
               nanoseconds = t mod 1000
           in Timedelta (days * day_ns + hours * 3600000000000 + minutes * 60000000000
                         + seconds * 1000000000 + microseconds * 1000
                         + round_div_100 nanoseconds * 100))
      | x \<Rightarrow> x)"

text \<open>\<open>astype("str")\<close>, \<open>replace({"NaT": None})\<close> and the slice \<open>.str[i:j]\<close> of a value.\<close>

definition render :: "library \<Rightarrow> nat \<Rightarrow> nat \<Rightarrow> cell \<Rightarrow> cell" where
  "render lib i j v =
     (let s = astype_str lib v in if s = ''NaT'' then NA else Str (take (j - i) (drop i s)))"

definition render_columns :: "(cell \<Rightarrow> cell) \<Rightarrow> string list \<Rightarrow> frame \<Rightarrow> frame" where
  "render_columns f cs prepped = fold (\<lambda>c p. AList.update c (map f (getcol p c)) p) cs prepped"

text \<open>
  The loop \<open>for col in cols: rounded = dataframe[col].apply(f); dataframe[col] = rounded;
  prepped[col] = rounded\<close>.
\<close>

definition assign_rounded :: "(cell \<Rightarrow> cell) \<Rightarrow> string list \<Rightarrow> frame \<times> frame \<Rightarrow> frame \<times> frame" where
  "assign_rounded f cols pd =
     fold (\<lambda>col (prepped, dataframe).
             let rounded = map f (getcol dataframe col)
             in (AList.update col rounded prepped, AList.update col rounded dataframe))
          cols pd"

text \<open>The time columns with a value that is not a multiple of 100 nanoseconds.\<close>

definition time_truncation :: "schema \<Rightarrow> frame \<Rightarrow> string list" where
  "time_truncation schema prepped =
     (let dtype = columns_of_type [''time''] schema
      in if py_any dtype then columns_with timedelta_truncated prepped dtype else [])"

definition prepare_time ::
  "library \<Rightarrow> schema \<Rightarrow> frame \<Rightarrow> frame \<Rightarrow> (error + frame \<times> frame) \<times> warning list" where
  "prepare_time lib schema prepped dataframe =
     (let dtype = columns_of_type [''time''] schema
      in if \<not> has_columns prepped dtype then (Inl KeyError, [])
         else if \<not> all_cells is_timedelta prepped dtype then (Inl TypeError, [])
         else
           let invalid = columns_with time_out_of_range prepped dtype
           in if invalid \<noteq> [] then (Inl (ValueError_time_out_of_range invalid), [])
              else
                let truncation = time_truncation schema prepped;
                    warnings = (if py_any truncation then [Warning_time truncation] else [])
                in if \<not> has_columns dataframe truncation then (Inl KeyError, warnings)
                   else if \<not> all_cells is_timedelta dataframe truncation then (Inl TypeError, warnings)
                   else
                     let (prepped1, dataframe1) =
                           assign_rounded round_timedelta truncation (prepped, dataframe);
                         prepped2 =
                           (if py_any dtype then render_columns (render lib 7 23) dtype prepped1
                            else prepped1)
                     in (Inr (prepped2, dataframe1), warnings))"

subsection \<open>\<open>prepare_datetime\<close>\<close>

text \<open>\<open>x.dt.microsecond\<close>: the microseconds within the second.\<close>

definition microsecond :: "int \<Rightarrow> int" where
  "microsecond t = (t mod 1000000000) div 1000"

definition datetime_adjust :: "cell \<Rightarrow> bool" where
  "datetime_adjust v = (case v of Timestamp t tz \<Rightarrow> 0 < microsecond t mod 3000 | _ \<Rightarrow> False)"

definition increments :: "int list" where
  "increments = [10, 7, 3, 0]"

text \<open>
  \<open>increments[np.abs(thousandths - increments).argmin(axis=0)]\<close> where \<open>thousandths\<close> is
  \<open>microsecond / 1000 % 10\<close>: the first of the increments at the least distance. Distances
  are compared in microseconds, \<open>m\<close> being \<open>microsecond % 10000\<close>; two distances that
  differ do so by a thousandth of a unit at least, far above the rounding of the doubles.
\<close>

fun nearest_increment :: "int \<Rightarrow> int list \<Rightarrow> int" where
  "nearest_increment m [] = 0"
| "nearest_increment m [x] = x"
| "nearest_increment m (x # y # ys) =
     (let b = nearest_increment m (y # ys)
      in if \<bar>m - 1000 * x\<bar> \<le> \<bar>m - 1000 * b\<bar> then x else b)"

text \<open>
  \<open>dataframe[col].dt.floor("s") + pd.to_timedelta(milliseconds, unit="milliseconds")\<close> with
  \<open>milliseconds = prepped[col].dt.microsecond // 10000 * 10 + thousandths\<close>, for the value
  \<open>d\<close> of the dataframe and the value \<open>p\<close> of the prepared frame in the same row.
\<close>

definition round_datetime :: "cell \<Rightarrow> cell \<Rightarrow> cell" where
  "round_datetime d p =
     (case (d, p) of
        (Timestamp t tz, Timestamp u tzu) \<Rightarrow>
          (let thousandths = nearest_increment (microsecond u mod 10000) increments;
               milliseconds = microsecond u div 10000 * 10 + thousandths
           in Timestamp (t - t mod 1000000000 + milliseconds * 1000000) tz)
      | _ \<Rightarrow> NA)"

definition assign_datetime :: "string list \<Rightarrow> frame \<times> frame \<Rightarrow> frame \<times> frame" where
  "assign_datetime cols pd =
     fold (\<lambda>col (prepped, dataframe).
             let rounded = map2 round_datetime (getcol dataframe col) (getcol prepped col)
             in (AList.update col rounded prepped, AList.update col rounded dataframe))
          cols pd"

text \<open>The datetime columns the source selects for rounding.\<close>

definition datetime_adjusted :: "schema \<Rightarrow> frame \<Rightarrow> string list" where
  "datetime_adjusted schema prepped =
     (let dtype = columns_of_type [''datetime''] schema
      in if py_any dtype then columns_with datetime_adjust prepped dtype else [])"

definition prepare_datetime ::
  "library \<Rightarrow> schema \<Rightarrow> frame \<Rightarrow> frame \<Rightarrow> (error + frame \<times> frame) \<times> warning list" where
  "prepare_datetime lib schema prepped dataframe =
     (let dtype = columns_of_type [''datetime''] schema
      in if py_any dtype \<and> \<not> has_columns prepped dtype then (Inl KeyError, [])
         else if py_any dtype \<and> \<not> all_cells is_timestamp prepped dtype then (Inl TypeError, [])
         else
           let adjust = datetime_adjusted schema prepped
           in if adjust \<noteq> [] then
                (let warnings = [Warning_datetime adjust]
                 in if \<not> has_columns dataframe adjust then (Inl KeyError, warnings)
                    else if \<not> all_cells is_timestamp dataframe adjust then (Inl TypeError, warnings)
                    else
                      let (prepped1, dataframe1) = assign_datetime adjust (prepped, dataframe);
                          prepped2 =
                            (if py_any dtype then render_columns (render lib 0 27) dtype prepped1
                             else prepped1)
                      in (Inr (prepped2, dataframe1), warnings))
              else
                (let prepped2 =
                       (if py_any dtype then render_columns (render lib 0 27) dtype prepped
                        else prepped)
                 in (Inr (prepped2, dataframe), [])))"

subsection \<open>\<open>prepare_datetime2\<close> and \<open>prepare_datetimeoffset\<close>\<close>

text \<open>\<open>x.nanosecond % 100 > 0\<close>: the nanosecond field is the part below a microsecond.\<close>

definition timestamp_truncated :: "cell \<Rightarrow> bool" where
  "timestamp_truncated v = (case v of Timestamp t tz \<Rightarrow> 0 < (t mod 1000) mod 100 | _ \<Rightarrow> False)"

text \<open>
  \<open>pd.Timestamp(x.year, ..., x.microsecond, round(x.nanosecond / 100) * 100)\<close> if the value
  is not null, the value itself otherwise; \<open>keep_tz\<close> tells whether \<open>tzinfo=x.tzinfo\<close> is
  passed, as \<open>prepare_datetimeoffset\<close> does.
\<close>

definition round_timestamp :: "library \<Rightarrow> bool \<Rightarrow> cell \<Rightarrow> cell option" where
  "round_timestamp lib keep_tz v =
     (case v of
        Timestamp t tz \<Rightarrow>
          Timestamp_new lib (t - t mod 1000) (round_div_100 (t mod 1000) * 100)
            (if keep_tz then tz else None)
      | x \<Rightarrow> Some x)"

fun assign_timestamps ::
  "library \<Rightarrow> bool \<Rightarrow> string list \<Rightarrow> frame \<times> frame \<Rightarrow> (frame \<times> frame) option" where
  "assign_timestamps lib keep_tz [] pd = Some pd"
| "assign_timestamps lib keep_tz (col # cols) pd =
     (case those (map (round_timestamp lib keep_tz) (getcol (snd pd) col)) of
        None \<Rightarrow> None
      | Some rounded \<Rightarrow>
          assign_timestamps lib keep_tz cols
            (AList.update col rounded (fst pd), AList.update col rounded (snd pd)))"

text \<open>The datetime2 columns with a value that is not a multiple of 100 nanoseconds.\<close>

definition datetime2_truncation :: "schema \<Rightarrow> frame \<Rightarrow> string list" where
  "datetime2_truncation schema prepped =
     (let dtype = columns_of_type [''datetime2''] schema
      in if py_any dtype then columns_with timestamp_truncated prepped dtype else [])"

definition prepare_datetime2 ::
  "library \<Rightarrow> schema \<Rightarrow> frame \<Rightarrow> frame \<Rightarrow> (error + frame \<times> frame) \<times> warning list" where
  "prepare_datetime2 lib schema prepped dataframe =
     (let dtype = columns_of_type [''datetime2''] schema
      in if py_any dtype \<and> \<not> has_columns prepped dtype then (Inl KeyError, [])
         else if py_any dtype \<and> \<not> all_cells is_timestamp prepped dtype then (Inl TypeError, [])
         else
           let truncation = datetime2_truncation schema prepped
           in if truncation \<noteq> [] then
                (let warnings = [Warning_datetime2 truncation]
                 in if \<not> has_columns dataframe truncation then (Inl KeyError, warnings)
                    else if \<not> all_cells is_timestamp dataframe truncation
                      then (Inl TypeError, warnings)
                    else
                      case assign_timestamps lib False truncation (prepped, dataframe) of
                        None \<Rightarrow> (Inl ValueError_Timestamp, warnings)
                      | Some (prepped1, dataframe1) \<Rightarrow>
                          (let prepped2 =
                                 (if py_any dtype
                                  then render_columns (render lib 0 27) dtype prepped1
                                  else prepped1)
                           in (Inr (prepped2, dataframe1), warnings)))
              else
                (let prepped2 =
                       (if py_any dtype then render_columns (render lib 0 27) dtype prepped
                        else prepped)
                 in (Inr (prepped2, dataframe), [])))"

text \<open>\<open>x.tz_localize("UTC") if x.tzinfo is None else x\<close>\<close>

definition localize_utc :: "cell \<Rightarrow> cell" where
  "localize_utc v = (case v of Timestamp t None \<Rightarrow> Timestamp t (Some 0) | x \<Rightarrow> x)"

text \<open>The first loop: the dataframe's column is localized and copied to the prepared frame.\<close>

definition assign_localized :: "string list \<Rightarrow> frame \<times> frame \<Rightarrow> frame \<times> frame" where
  "assign_localized cols pd =
     fold (\<lambda>col (prepped, dataframe).
             let localized = map localize_utc (getcol dataframe col)
             in (AList.update col localized prepped, AList.update col localized dataframe))
          cols pd"

definition render_offset :: "library \<Rightarrow> cell \<Rightarrow> cell" where
  "render_offset lib v =
     (let s = astype_str lib v
      in if s = ''NaT'' then NA else Str (re_sub_utc lib (re_sub_padding lib s)))"

text \<open>
  The datetimeoffset columns with a value that is not a multiple of 100 nanoseconds; the
  source looks for them in the prepared frame after the first loop, where these columns
  are the localized columns of the dataframe.
\<close>

definition datetimeoffset_truncation :: "schema \<Rightarrow> frame \<Rightarrow> string list" where
  "datetimeoffset_truncation schema prepped =
     columns_with timestamp_truncated prepped (columns_of_type [''datetimeoffset''] schema)"

definition prepare_datetimeoffset ::
  "library \<Rightarrow> schema \<Rightarrow> frame \<Rightarrow> frame \<Rightarrow> (error + frame \<times> frame) \<times> warning list" where
  "prepare_datetimeoffset lib schema prepped dataframe =
     (let dtype = columns_of_type [''datetimeoffset''] schema
      in if \<not> has_columns dataframe dtype then (Inl KeyError, [])
         else if \<not> all_cells is_timestamp dataframe dtype then (Inl TypeError, [])
         else
           let (prepped1, dataframe1) = assign_localized dtype (prepped, dataframe);
               truncation = datetimeoffset_truncation schema prepped1
           in if truncation \<noteq> [] then
                (let warnings = [Warning_datetimeoffset truncation]
                 in case assign_timestamps lib True truncation (prepped1, dataframe1) of
                      None \<Rightarrow> (Inl ValueError_Timestamp, warnings)
                    | Some (prepped2, dataframe2) \<Rightarrow>
                        (let prepped3 =
                               (if py_any dtype
                                then render_columns (render_offset lib) dtype prepped2
                                else prepped2)
                         in (Inr (prepped3, dataframe2), warnings)))
              else
                (let prepped3 =
                       (if py_any dtype then render_columns (render_offset lib) dtype prepped1
                        else prepped1)
                 in (Inr (prepped3, dataframe1), [])))"

subsection \<open>\<open>prepare_numeric\<close>\<close>

text \<open>
  One round of the loop over the numeric and decimal columns: the column of the dataframe
  after \<open>replace([pd.NA], None)\<close> is rounded, compared with its rounded values for the
  warning, and replaced by them. The cast of the rounded column back to the column's own
  dtype keeps its values.
\<close>

fun numeric_loop ::
  "library \<Rightarrow> schema \<Rightarrow> string list \<Rightarrow> frame \<Rightarrow> frame \<Rightarrow> warning list
   \<Rightarrow> (error + frame \<times> frame) \<times> warning list" where
  "numeric_loop lib schema [] prepped dataframe ws = (Inr (prepped, dataframe), ws)"
| "numeric_loop lib schema (col # cols) prepped dataframe ws =
     (if map_of dataframe col = None then (Inl KeyError, ws)
      else
        let common = replace_NA lib (getcol dataframe col);
            digits = (case map_of schema col of Some r \<Rightarrow> decimal_digits r | None \<Rightarrow> 0);
            rounded = map (\<lambda>x. if x \<noteq> NA then py_round lib x digits else x) common;
            ws1 = (if common \<noteq> rounded then ws @ [Warning_numeric col digits] else ws)
        in numeric_loop lib schema cols
             (AList.update col rounded prepped) (AList.update col rounded dataframe) ws1)"

definition prepare_numeric ::
  "library \<Rightarrow> schema \<Rightarrow> frame \<Rightarrow> frame \<Rightarrow> (error + frame \<times> frame) \<times> warning list" where
  "prepare_numeric lib schema prepped dataframe =
     numeric_loop lib schema (columns_of_type [''numeric'', ''decimal''] schema) prepped dataframe []"

subsection \<open>\<open>prepare_values\<close> and \<open>insert_values\<close>\<close>

text \<open>Running the next rule on the frames of the previous one; warnings accumulate.\<close>

definition and_then ::
  "(error + frame \<times> frame) \<times> warning list
   \<Rightarrow> (frame \<Rightarrow> frame \<Rightarrow> (error + frame \<times> frame) \<times> warning list)
   \<Rightarrow> (error + frame \<times> frame) \<times> warning list" where
  "and_then r f =
     (case r of
        (Inl e, ws) \<Rightarrow> (Inl e, ws)
      | (Inr (prepped, dataframe), ws) \<Rightarrow>
          (case f prepped dataframe of (r1, ws1) \<Rightarrow> (r1, ws @ ws1)))"

text \<open>
  \<open>prepare_values\<close>. With a named index, \<open>reset_index\<close> puts the levels of the index in
  front of the columns (a \<open>ValueError\<close> if a column of that name exists) and
  \<open>set_index(index, drop=False)\<close> keeps them there; at the end \<open>set_index(index)\<close> moves
  them back. The values are the rows of the prepared frame.
\<close>

definition reset_index :: "DataFrame \<Rightarrow> frame" where
  "reset_index dataframe =
     (if py_any (index_names dataframe) then index dataframe @ columns dataframe
      else columns dataframe)"

text \<open>\<open>schema[schema.index.isin(prepped.columns)]\<close>\<close>

definition restrict_schema :: "schema \<Rightarrow> frame \<Rightarrow> schema" where
  "restrict_schema schema f = filter (\<lambda>(c, r). c \<in> set (map fst f)) schema"

definition prepare_values ::
  "library \<Rightarrow> schema \<Rightarrow> DataFrame \<Rightarrow> (error + DataFrame \<times> cell list list) \<times> warning list" where
  "prepare_values lib schema dataframe =
     (let idx = index_names dataframe
      in if py_any idx \<and> list_ex (\<lambda>n. n \<in> set (column_names dataframe)) idx
         then (Inl ValueError_reset_index, [])
         else
           let frame0 = reset_index dataframe;
               schema1 = restrict_schema schema frame0
           in case and_then (and_then (and_then (and_then
                     (prepare_time lib schema1 frame0 frame0)
                     (prepare_datetime lib schema1))
                     (prepare_datetime2 lib schema1))
                     (prepare_datetimeoffset lib schema1))
                     (prepare_numeric lib schema1) of
                (Inl e, ws) \<Rightarrow> (Inl e, ws)
              | (Inr (prepped, frame1), ws) \<Rightarrow>
                  (let dataframe1 =
                         (if py_any idx
                          then \<lparr> index = map (\<lambda>n. (n, getcol frame1 n)) idx,
                                 columns = filter (\<lambda>(c, vs). c \<notin> set idx) frame1 \<rparr>
                          else \<lparr> index = index dataframe, columns = frame1 \<rparr>)
                   in (Inr (dataframe1, transpose (map snd prepped)), ws)))"

text \<open>
  \<open>prepare_cursor\<close> selects the rows of the schema for the columns of the dataframe, a
  \<open>KeyError\<close> if one has none, and sets the input sizes of the cursor, which sends nothing.
\<close>

definition prepare_cursor :: "schema \<Rightarrow> DataFrame \<Rightarrow> error option" where
  "prepare_cursor schema dataframe =
     (let cols = (if py_any (index_names dataframe)
                  then index_names dataframe @ column_names dataframe
                  else column_names dataframe)
      in if list_all (\<lambda>c. map_of schema c \<noteq> None) cols then None else Some KeyError)"

definition insert_statement :: "bool \<Rightarrow> string \<Rightarrow> string list \<Rightarrow> string" where
  "insert_statement include_metadata_timestamps table cols =
     (let insert = (if include_metadata_timestamps then ''_time_insert, '' @ join '', '' cols
                    else join '', '' cols);
          params = (if include_metadata_timestamps
                    then ''GETDATE(), '' @ join '', '' (replicate (length cols) ''?'')
                    else join '', '' (replicate (length cols) ''?''))
      in ''\<newline>    INSERT INTO\<newline>    '' @ table @ '' (\<newline>        '' @ insert
         @ ''\<newline>    ) VALUES (\<newline>        '' @ params @ ''\<newline>    )\<newline>    '')"

text \<open>
  \<open>insert_values\<close>. The collaborator \<open>dynamic.escape\<close> of another module is given the
  cursor and a name or a list of names and returns them quoted; it is taken as two
  parameters, for a name and for a list of names, that may use the cursor and may fail.
\<close>

definition insert_values ::
  "library
   \<Rightarrow> (action list \<Rightarrow> string \<Rightarrow> (error + string) \<times> action list)
   \<Rightarrow> (action list \<Rightarrow> string list \<Rightarrow> (error + string list) \<times> action list)
   \<Rightarrow> string \<Rightarrow> DataFrame \<Rightarrow> bool \<Rightarrow> schema \<Rightarrow> action list
   \<Rightarrow> ((error + DataFrame) \<times> action list) \<times> warning list" where
  "insert_values lib escape escape_all table_name dataframe include_metadata_timestamps schema cursor =
     (let cols = (if py_any (index_names dataframe)
                  then index_names dataframe @ column_names dataframe
                  else column_names dataframe)
      in case escape cursor table_name of
           (Inl e, cursor1) \<Rightarrow> ((Inl e, cursor1), [])
         | (Inr table, cursor1) \<Rightarrow>
             (case escape_all cursor1 cols of
                (Inl e, cursor2) \<Rightarrow> ((Inl e, cursor2), [])
              | (Inr cols1, cursor2) \<Rightarrow>
                  (case prepare_values lib schema dataframe of
                     (Inl e, ws) \<Rightarrow> ((Inl e, cursor2), ws)
                   | (Inr (dataframe1, vals), ws) \<Rightarrow>
                       (case prepare_cursor schema dataframe1 of
                          Some e \<Rightarrow> ((Inl e, cursor2), ws)
                        | None \<Rightarrow>
                            ((Inr dataframe1,
                              cursor2 @ [Executemany
                                           (insert_statement include_metadata_timestamps table cols1)
                                           vals,
                                         Commit]), ws)))))"

section \<open>Schema description and coercion (conversion.py)\<close>

text \<open>
  The coercion reads and changes the dtype of a column, so here a column is a series: its
  dtype, by name, and its values. A frame has the named levels of its index and its
  columns. A character of a text is one \<open>char\<close>; the characters beyond ASCII are those
  with a code of 128 or more.
\<close>

record series =
  dtype :: string
  cells :: "cell list"

type_synonym typed_columns = "(string \<times> series) list"

record typed_frame =
  levels :: typed_columns
  cols :: typed_columns

text \<open>
  The casts of pandas, parameters of the model: \<open>astype\<close> to
  a dtype given by name, and \<open>apply(lambda x: pd.Timestamp(x))\<close>. A cast returns the new
  series or raises \<open>TypeError\<close> or \<open>ValueError\<close>.
\<close>

datatype cast_failure = Cast_TypeError | Cast_ValueError

record casts =
  astype :: "string \<Rightarrow> series \<Rightarrow> cast_failure + series"
  apply_Timestamp :: "series \<Rightarrow> cast_failure + series"

subsection \<open>\<open>convert_largest_sql_category\<close>\<close>

text \<open>
  \<open>dataframe[columns] = dataframe[columns].astype(...)\<close>: the cast of the listed columns,
  \<open>None\<close> when the cast of one of them raises.
\<close>

fun cast_columns ::
  "(series \<Rightarrow> cast_failure + series) \<Rightarrow> string list \<Rightarrow> typed_columns \<Rightarrow> typed_columns option" where
  "cast_columns f names [] = Some []"
| "cast_columns f names ((c, s) # rest) =
     (if c \<in> set names
      then (case f s of
              Inl e \<Rightarrow> None
            | Inr s1 \<Rightarrow> map_option ((#) (c, s1)) (cast_columns f names rest))
      else map_option ((#) (c, s)) (cast_columns f names rest))"

text \<open>\<open>schema.loc[c, "sql_category"]\<close> and \<open>schema.loc[c, "sql_type"]\<close> of a column in the schema.\<close>

definition category_of :: "schema \<Rightarrow> string \<Rightarrow> string" where
  "category_of schema c = (case map_of schema c of Some r \<Rightarrow> sql_category r | None \<Rightarrow> [])"

definition type_of :: "schema \<Rightarrow> string \<Rightarrow> string" where
  "type_of schema c = (case map_of schema c of Some r \<Rightarrow> sql_type r | None \<Rightarrow> [])"

text \<open>
  The five steps run in the order of the source; a \<open>TypeError\<close> or \<open>ValueError\<close> of a
  cast becomes \<open>DataframeColumnInvalidValue\<close> with the columns of the step. Replacing
  the missing values of the whole-number columns by \<open>None\<close> keeps the cells, every kind of
  missing value being \<open>NA\<close>.
\<close>

definition convert_largest_sql_category :: "casts \<Rightarrow> typed_columns \<Rightarrow> schema \<Rightarrow> error + typed_columns" where
  "convert_largest_sql_category lib dataframe schema =
     (let convert = map fst (filter (\<lambda>(c, s). dtype s = ''object'') dataframe)
      in if \<not> list_all (\<lambda>c. map_of schema c \<noteq> None) convert then Inl KeyError
         else
           let columns1 = filter (\<lambda>c. category_of schema c = ''exact_whole_numeric'') convert
           in case cast_columns
                     (\<lambda>s. case astype lib ''float'' s of Inl e \<Rightarrow> Inl e
                                                       | Inr s1 \<Rightarrow> astype lib ''Int64'' s1)
                     columns1 dataframe of
                None \<Rightarrow> Inl (DataframeColumnInvalidValue columns1)
              | Some dataframe1 \<Rightarrow>
           let columns2 = filter (\<lambda>c. category_of schema c = ''approximate_decimal_numeric'') convert
           in case cast_columns (astype lib ''float64'') columns2 dataframe1 of
                None \<Rightarrow> Inl (DataframeColumnInvalidValue columns2)
              | Some dataframe2 \<Rightarrow>
           let columns3 = filter (\<lambda>c. category_of schema c = ''date_time''
                                       \<and> type_of schema c \<noteq> ''datetimeoffset'') convert
           in case cast_columns (astype lib ''datetime64[ns]'') columns3 dataframe2 of
                None \<Rightarrow> Inl (DataframeColumnInvalidValue columns3)
              | Some dataframe3 \<Rightarrow>
           let columns4 = filter (\<lambda>c. category_of schema c = ''date_time''
                                       \<and> type_of schema c = ''datetimeoffset'') convert
           in case cast_columns (apply_Timestamp lib) columns4 dataframe3 of
                None \<Rightarrow> Inl (DataframeColumnInvalidValue columns4)
              | Some dataframe4 \<Rightarrow>
           let columns5 = filter (\<lambda>c. category_of schema c = ''character string'') convert
           in case cast_columns (astype lib ''string'') columns5 dataframe4 of
                None \<Rightarrow> Inl (DataframeColumnInvalidValue columns5)
              | Some dataframe5 \<Rightarrow> Inr dataframe5)"

subsection \<open>\<open>check_column_size\<close>\<close>

text \<open>
  Python's \<open><\<close> on two values: \<open>None\<close> where it raises \<open>TypeError\<close>. A comparison with
  a missing value is false. Timestamps with an offset are compared by their instant.
\<close>

fun cell_less :: "cell \<Rightarrow> cell \<Rightarrow> bool option" where
  "cell_less NA y = Some False"
| "cell_less x NA = Some False"
| "cell_less (Number a) (Number b) = Some (a < b)"
| "cell_less (Timedelta a) (Timedelta b) = Some (a < b)"
| "cell_less (Timestamp a None) (Timestamp b None) = Some (a < b)"
| "cell_less (Timestamp a (Some x)) (Timestamp b (Some y)) =
     Some (a - x * 60000000000 < b - y * 60000000000)"
| "cell_less (Str a) (Str b) = Some (a < b)"
| "cell_less x y = None"

text \<open>
  The minimum and the maximum of a column as \<open>agg([min, max])\<close> computes them: missing
  values are skipped, a column without values has a missing extreme, and values that
  cannot be compared give no result (\<open>None\<close>).
\<close>

fun least :: "cell list \<Rightarrow> cell option" where
  "least [] = Some NA"
| "least (v # vs) =
     (case least vs of
        None \<Rightarrow> None
      | Some m \<Rightarrow>
          if v = NA then Some m
          else if m = NA then Some v
          else (case cell_less v m of None \<Rightarrow> None | Some b \<Rightarrow> Some (if b then v else m)))"

fun greatest :: "cell list \<Rightarrow> cell option" where
  "greatest [] = Some NA"
| "greatest (v # vs) =
     (case greatest vs of
        None \<Rightarrow> None
      | Some m \<Rightarrow>
          if v = NA then Some m
          else if m = NA then Some v
          else (case cell_less m v of None \<Rightarrow> None | Some b \<Rightarrow> Some (if b then v else m)))"

text \<open>
  Python's built-in \<open>min\<close> and \<open>max\<close> over the values of a column: the first value is
  kept until a later one compares below (above) it, an empty column raises \<open>ValueError\<close>.
\<close>

definition py_min :: "cell list \<Rightarrow> error + cell" where
  "py_min vs =
     (case vs of
        [] \<Rightarrow> Inl ValueError_empty_sequence
      | x # xs \<Rightarrow>
          fold (\<lambda>v acc. case acc of
                           Inl e \<Rightarrow> Inl e
                         | Inr b \<Rightarrow> (case cell_less v b of
                                       None \<Rightarrow> Inl TypeError
                                     | Some lt \<Rightarrow> Inr (if lt then v else b)))
               xs (Inr x))"

definition py_max :: "cell list \<Rightarrow> error + cell" where
  "py_max vs =
     (case vs of
        [] \<Rightarrow> Inl ValueError_empty_sequence
      | x # xs \<Rightarrow>
          fold (\<lambda>v acc. case acc of
                           Inl e \<Rightarrow> Inl e
                         | Inr b \<Rightarrow> (case cell_less b v of
                                       None \<Rightarrow> Inl TypeError
                                     | Some gt \<Rightarrow> Inr (if gt then v else b)))
               xs (Inr x))"

text \<open>\<open>x.str.len()\<close>: the number of characters of each text.\<close>

definition str_len :: "cell \<Rightarrow> cell" where
  "str_len v = (case v of Str s \<Rightarrow> Number (of_nat (length s)) | _ \<Rightarrow> NA)"

text \<open>
  A row of the frame \<open>check\<close>: the column, its minimum and its maximum. Where the minimum
  or the maximum of a column has no result, \<open>agg\<close> raises \<open>ValueError\<close> (no results).
\<close>

fun agg_min_max :: "typed_columns \<Rightarrow> error + (string \<times> cell \<times> cell) list" where
  "agg_min_max [] = Inr []"
| "agg_min_max ((c, s) # rest) =
     (case (least (cells s), greatest (cells s)) of
        (Some mn, Some mx) \<Rightarrow>
          (case agg_min_max rest of Inl e \<Rightarrow> Inl e | Inr rows \<Rightarrow> Inr ((c, mn, mx) # rows))
      | _ \<Rightarrow> Inl ValueError_no_results)"

fun offset_min_max :: "typed_columns \<Rightarrow> string list \<Rightarrow> error + (string \<times> cell \<times> cell) list" where
  "offset_min_max dataframe [] = Inr []"
| "offset_min_max dataframe (c # rest) =
     (case map_of dataframe c of
        None \<Rightarrow> Inl KeyError
      | Some s \<Rightarrow>
          (case py_min (cells s) of
             Inl e \<Rightarrow> Inl e
           | Inr mn \<Rightarrow>
               (case py_max (cells s) of
                  Inl e \<Rightarrow> Inl e
                | Inr mx \<Rightarrow>
                    (case offset_min_max dataframe rest of
                       Inl e \<Rightarrow> Inl e
                     | Inr rows \<Rightarrow> Inr ((c, mn, mx) # rows)))))"

text \<open>
  The schema after \<open>schema.loc[strings, "max_value"] = schema.loc[strings, "column_size"]\<close>:
  the upper bound of the text columns becomes their declared size, the lower bound stays.
\<close>

definition size_bounds :: "string list \<Rightarrow> schema \<Rightarrow> schema" where
  "size_bounds strings schema =
     map (\<lambda>(c, r). if c \<in> set strings
                    then (c, r\<lparr> max_value := Number (of_int (column_size r)) \<rparr>)
                    else (c, r)) schema"

text \<open>
  \<open>check.merge(schema[["min_value", "max_value"]], left_index=True, right_index=True)\<close>: the
  rows of \<open>check\<close> whose column is in the schema, with the bounds of the schema.
\<close>

definition with_bounds ::
  "(string \<times> cell \<times> cell) list \<Rightarrow> schema \<Rightarrow> (string \<times> cell \<times> cell \<times> cell \<times> cell) list" where
  "with_bounds rows schema =
     concat (map (\<lambda>(c, mn, mx). case map_of schema c of
                                   None \<Rightarrow> []
                                 | Some r \<Rightarrow> [(c, mn, mx, min_value r, max_value r)]) rows)"

text \<open>The columns of dtype \<open>string\<close>.\<close>

definition string_columns :: "typed_columns \<Rightarrow> string list" where
  "string_columns dataframe = map fst (filter (\<lambda>(c, s). dtype s = ''string'') dataframe)"

text \<open>\<open>check[strings] = check[strings].apply(lambda x: x.str.len())\<close>\<close>

definition string_lengths :: "typed_columns \<Rightarrow> typed_columns" where
  "string_lengths dataframe =
     map (\<lambda>(c, s). if dtype s = ''string'' then (c, s\<lparr> cells := map str_len (cells s) \<rparr>)
                     else (c, s)) dataframe"

text \<open>
  The comparison of the rows of \<open>check\<close> with their bounds: a \<open>TypeError\<close> of a
  comparison becomes \<open>DataframeColumnInvalidValue\<close>, and the columns with a minimum below
  the lower bound or a maximum above the upper bound are reported.
\<close>

definition compare_bounds :: "(string \<times> cell \<times> cell \<times> cell \<times> cell) list \<Rightarrow> error option" where
  "compare_bounds check =
     (if list_ex (\<lambda>(c, mn, mx, lo, hi). cell_less mn lo = None \<or> cell_less hi mx = None) check
      then Some (DataframeColumnInvalidValue [])
      else
        let invalid = map fst (filter (\<lambda>(c, mn, mx, lo, hi).
                                         cell_less mn lo = Some True \<or> cell_less hi mx = Some True)
                                      check)
        in if invalid \<noteq> [] then Some (SQLInsufficientColumnSize invalid) else None)"

text \<open>
  The frame \<open>check\<close> as it stands before the comparison: a row for every column, with its
  minimum, its maximum and the two bounds of the schema.
\<close>

definition check_rows ::
  "typed_columns \<Rightarrow> schema \<Rightarrow> error + (string \<times> cell \<times> cell \<times> cell \<times> cell) list" where
  "check_rows dataframe schema =
     (let strings = string_columns dataframe
      in if py_any strings \<and> \<not> list_all (\<lambda>c. map_of schema c \<noteq> None) strings then Inl KeyError
         else
           let schema1 = (if py_any strings then size_bounds strings schema else schema);
               check0 = (if py_any strings then string_lengths dataframe else dataframe);
               datetimeoffset = columns_of_type [''datetimeoffset''] schema1
           in if \<not> list_all (\<lambda>c. map_of check0 c \<noteq> None) datetimeoffset then Inl KeyError
              else
                case agg_min_max (filter (\<lambda>(c, s). c \<notin> set datetimeoffset) check0) of
                  Inl e \<Rightarrow> Inl e
                | Inr rows1 \<Rightarrow>
                    (case offset_min_max dataframe datetimeoffset of
                       Inl e \<Rightarrow> Inl e
                     | Inr rows2 \<Rightarrow> Inr (with_bounds (rows1 @ rows2) schema1)))"

definition check_column_size :: "typed_columns \<Rightarrow> schema \<Rightarrow> error option" where
  "check_column_size dataframe schema =
     (case check_rows dataframe schema of
        Inl e \<Rightarrow> Some e
      | Inr check \<Rightarrow> compare_bounds check)"


subsection \<open>\<open>check_unicode\<close>\<close>

text \<open>
  \<open>contains_unicode\<close>: some text loses characters when encoded as ASCII with the errors
  ignored. The \<open>.str\<close> accessor exists on text and object columns only.
\<close>

definition contains_unicode :: "series \<Rightarrow> bool" where
  "contains_unicode s =
     list_ex (\<lambda>v. case v of
                    Str t \<Rightarrow> length t \<noteq> length (filter (\<lambda>ch. (of_char ch :: nat) < 128) t)
                  | _ \<Rightarrow> False) (cells s)"

fun check_unicode_loop :: "typed_columns \<Rightarrow> string list \<Rightarrow> error option" where
  "check_unicode_loop dataframe [] = None"
| "check_unicode_loop dataframe (c # rest) =
     (case map_of dataframe c of
        None \<Rightarrow> Some KeyError
      | Some s \<Rightarrow>
          if dtype s \<noteq> ''string'' \<and> dtype s \<noteq> ''object'' then Some AttributeError
          else if contains_unicode s then Some SQLNonUnicodeTypeColumn
          else check_unicode_loop dataframe rest)"

definition check_unicode :: "typed_columns \<Rightarrow> schema \<Rightarrow> error option" where
  "check_unicode dataframe schema =
     check_unicode_loop dataframe (columns_of_type [''char'', ''varchar''] schema)"

subsection \<open>\<open>_precheck_dataframe\<close>\<close>

text \<open>\<open>dataframe.astype(schema["pandas_type"].to_dict())\<close>, column by column.\<close>

fun astype_schema :: "casts \<Rightarrow> schema \<Rightarrow> typed_columns \<Rightarrow> error + typed_columns" where
  "astype_schema lib schema [] = Inr []"
| "astype_schema lib schema ((c, s) # rest) =
     (case map_of schema c of
        None \<Rightarrow> (case astype_schema lib schema rest of
                   Inl e \<Rightarrow> Inl e | Inr rest1 \<Rightarrow> Inr ((c, s) # rest1))
      | Some r \<Rightarrow>
          (case astype lib (pandas_type r) s of
             Inl Cast_TypeError \<Rightarrow> Inl (DataframeColumnInvalidValue [])
           | Inl Cast_ValueError \<Rightarrow> Inl ValueError_astype
           | Inr s1 \<Rightarrow>
               (case astype_schema lib schema rest of
                  Inl e \<Rightarrow> Inl e | Inr rest1 \<Rightarrow> Inr ((c, s1) # rest1))))"

text \<open>The columns with a position in the primary key, in the order of the positions.\<close>

definition primary_key :: "schema \<Rightarrow> string list" where
  "primary_key schema =
     map fst (sort_key (\<lambda>(c, r). the (pk_seq r)) (filter (\<lambda>(c, r). pk_seq r \<noteq> None) schema))"

definition precheck_dataframe :: "casts \<Rightarrow> schema \<Rightarrow> typed_frame \<Rightarrow> error + typed_frame" where
  "precheck_dataframe lib schema dataframe =
     (let flat = (if py_any (map fst (levels dataframe))
                  then levels dataframe @ cols dataframe else cols dataframe)
      in if py_any (map fst (levels dataframe))
            \<and> list_ex (\<lambda>n. n \<in> set (map fst (cols dataframe))) (map fst (levels dataframe))
         then Inl ValueError_reset_index
         else
           let schema1 = filter (\<lambda>(c, r). c \<in> set (map fst flat)) schema
           in case convert_largest_sql_category lib flat schema1 of
                Inl e \<Rightarrow> Inl e
              | Inr dataframe1 \<Rightarrow>
                  (case check_column_size dataframe1 schema1 of
                     Some e \<Rightarrow> Inl e
                   | None \<Rightarrow>
                       (case check_unicode dataframe1 schema1 of
                          Some e \<Rightarrow> Inl e
                        | None \<Rightarrow>
                            (case astype_schema lib schema1 dataframe1 of
                               Inl e \<Rightarrow> Inl e
                             | Inr dataframe2 \<Rightarrow>
                                 (let pk = primary_key schema1
                                  in if pk \<noteq> []
                                     then Inr \<lparr> levels = concat (map (\<lambda>k. case map_of dataframe2 k of
                                                                              None \<Rightarrow> []
                                                                            | Some s \<Rightarrow> [(k, s)]) pk),
                                                cols = filter (\<lambda>(c, s). c \<notin> set pk) dataframe2 \<rparr>
                                     else Inr \<lparr> levels = (if py_any (map fst (levels dataframe))
                                                           then [] else levels dataframe),
                                                cols = dataframe2 \<rparr>)))))"

subsection \<open>\<open>get_schema\<close>\<close>

text \<open>
  A row of \<open>cursor.columns\<close>, with the fields the source keeps, and a row of
  \<open>cursor.primaryKeys\<close>. The driver's fields carry the suffix \<open>_raw\<close> where the schema has
  a field of the same name.
\<close>

record column_row =
  column_name :: string
  data_type_raw :: int
  column_size_raw :: int
  decimal_digits_raw :: "int option"
  type_name :: string
  is_nullable_raw :: string
  ss_is_identity_raw :: int

record pk_row =
  pk_column_name :: string
  key_seq :: int
  pk_name_raw :: string

text \<open>Python's \<open>s.split(".")\<close>.\<close>

fun split_dot :: "string \<Rightarrow> string list" where
  "split_dot [] = [[]]"
| "split_dot (c # cs) =
     (if c = CHR ''.'' then [] # split_dot cs
      else (case split_dot cs of [] \<Rightarrow> [[c]] | w # ws \<Rightarrow> (c # w) # ws))"

text \<open>
  The key of the registry for a column: an \<open>int identity\<close> column is looked up as \<open>int\<close>.
\<close>

definition lookup_key :: "string \<Rightarrow> string" where
  "lookup_key t = (if t = ''int identity'' then ''int'' else t)"

text \<open>
  The row of the schema for a column, its primary-key row if it has one, and its rule: the
  fields of the rule, the formatted fields of the column, and \<open>sql_type\<close> set back to the
  name the driver gave (which differs from the rule's for \<open>int identity\<close> only).
\<close>

definition make_row :: "column_row \<Rightarrow> pk_row option \<Rightarrow> rule \<Rightarrow> schema_row" where
  "make_row col pk r =
     \<lparr> sql_type = type_name col, sql_category = sql_category r,
       min_value = min_value r, max_value = max_value r, pandas_type = pandas_type r,
       odbc_type = odbc_type r, odbc_size = odbc_size r, odbc_precision = odbc_precision r,
       data_type = data_type_raw col, column_size = column_size_raw col,
       decimal_digits = (case decimal_digits_raw col of None \<Rightarrow> 0 | Some d \<Rightarrow> d),
       is_nullable = (is_nullable_raw col = ''YES''),
       ss_is_identity = (ss_is_identity_raw col = 1),
       pk_seq = map_option key_seq pk, pk_name = map_option pk_name_raw pk \<rparr>"

text \<open>
  The first lines of \<open>get_schema\<close>: the schema name and the table name from a name of one
  or two parts (a name of more parts fails to unpack), and the catalog, \<open>tempdb\<close> for a
  temporary table.
\<close>

definition qualifiers :: "string \<Rightarrow> error + string option \<times> string \<times> string option" where
  "qualifiers table_name0 =
     (case (case split_dot table_name0 of
              [a, b] \<Rightarrow> Inr (Some a, b)
            | [a] \<Rightarrow> Inr (None, table_name0)
            | _ \<Rightarrow> Inl ValueError_unpack) of
        Inl e \<Rightarrow> Inl e
      | Inr (schema_name, table_name) \<Rightarrow>
          Inr (schema_name, table_name,
               (case table_name of
                  c # cs \<Rightarrow> if c = CHR ''#'' then Some ''tempdb'' else None
                | [] \<Rightarrow> None)))"

text \<open>
  The left joins of the introspected columns with the primary key and with the registry.
\<close>

definition join_rules :: "column_row list \<Rightarrow> pk_row list \<Rightarrow> (column_row \<times> pk_row option \<times> rule option) list" where
  "join_rules rows pk =
     map (\<lambda>col. (col, find (\<lambda>k. pk_column_name k = column_name col) pk,
                  lookup (lookup_key (type_name col)))) rows"

text \<open>
  The columns without a rule, which \<open>UndefinedConversionRule\<close> reports, and the schema
  built from the joined rows.
\<close>

definition undefined_rules :: "(column_row \<times> pk_row option \<times> rule option) list \<Rightarrow> string list" where
  "undefined_rules joined =
     map (\<lambda>(col, k, r). column_name col) (filter (\<lambda>(col, k, r). r = None) joined)"

definition schema_rows :: "(column_row \<times> pk_row option \<times> rule option) list \<Rightarrow> schema" where
  "schema_rows joined =
     concat (map (\<lambda>(col, k, r). case r of
                                  None \<Rightarrow> []
                                | Some rl \<Rightarrow> [(column_name col, make_row col k rl)]) joined)"

text \<open>
  \<open>get_schema\<close> up to the check for undefined conversion rules (lines 44 to 141). The
  connection is the two introspection calls of the cursor, given the table, the catalog
  and the schema name: \<open>cursor.columns\<close> and \<open>cursor.primaryKeys\<close>. Of the dataframe
  only the names of the columns are read here.
\<close>

definition table_schema ::
  "(string \<Rightarrow> string option \<Rightarrow> string option \<Rightarrow> column_row list)
   \<Rightarrow> (string \<Rightarrow> string option \<Rightarrow> pk_row list)
   \<Rightarrow> string \<Rightarrow> string list option \<Rightarrow> string list option \<Rightarrow> error + schema" where
  "table_schema cursor_columns cursor_primaryKeys table_name0 dataframe_columns additional_columns =
     (case qualifiers table_name0 of
        Inl e \<Rightarrow> Inl e
      | Inr (schema_name, table_name, catalog) \<Rightarrow>
          let rows = cursor_columns table_name catalog schema_name
          in if rows = [] then Inl SQLTableDoesNotExist
             else
               let missing1 = (case additional_columns of
                                 None \<Rightarrow> []
                               | Some ac \<Rightarrow> filter (\<lambda>c. c \<notin> set (map column_name rows)) ac)
               in if missing1 \<noteq> [] then Inl (SQLColumnDoesNotExist missing1)
                  else
                    let missing2 = (case dataframe_columns of
                                      None \<Rightarrow> []
                                    | Some dc \<Rightarrow> filter (\<lambda>c. c \<notin> set (map column_name rows)) dc)
                    in if missing2 \<noteq> [] then Inl (SQLColumnDoesNotExist missing2)
                       else
                         let joined = join_rules rows (cursor_primaryKeys table_name catalog);
                             missing = undefined_rules joined
                         in if missing \<noteq> [] then Inl (UndefinedConversionRule missing)
                            else Inr (schema_rows joined))"

text \<open>\<open>get_schema\<close>: the schema of the table and, if a dataframe is given, its coercion.\<close>

definition get_schema ::
  "casts
   \<Rightarrow> (string \<Rightarrow> string option \<Rightarrow> string option \<Rightarrow> column_row list)
   \<Rightarrow> (string \<Rightarrow> string option \<Rightarrow> pk_row list)
   \<Rightarrow> string \<Rightarrow> typed_frame option \<Rightarrow> string list option
   \<Rightarrow> error + schema \<times> typed_frame option" where
  "get_schema lib cursor_columns cursor_primaryKeys table_name0 dataframe additional_columns =
     (case table_schema cursor_columns cursor_primaryKeys table_name0
             (map_option (\<lambda>df. map fst (cols df)) dataframe) additional_columns of
        Inl e \<Rightarrow> Inl e
      | Inr schema \<Rightarrow>
          (case dataframe of
             None \<Rightarrow> Inr (schema, None)
           | Some df \<Rightarrow>
               (case precheck_dataframe lib schema df of
                  Inl e \<Rightarrow> Inl e
                | Inr df1 \<Rightarrow> Inr (schema, Some df1))))"

section \<open>Inputs for the examples\<close>

text \<open>
  Python's \<open>round(x, ndigits)\<close> on an exact decimal value: the nearest multiple of
  \<open>10 ** -ndigits\<close>, a tie going to the even one. Other values are left as they are.
\<close>

definition round_half_even :: "rat \<Rightarrow> int" where
  "round_half_even x =
     (let f = \<lfloor>x\<rfloor>; r = x - of_int f
      in if r < 1 / 2 then f else if 1 / 2 < r then f + 1 else if even f then f else f + 1)"

definition round_decimal :: "cell \<Rightarrow> int \<Rightarrow> cell" where
  "round_decimal v ndigits =
     (case v of
        Number x \<Rightarrow>
          (let scale = (if 0 \<le> ndigits then 10 ^ nat ndigits else 1 / 10 ^ nat (- ndigits))
           in Number (of_int (round_half_even (x * scale)) / scale))
      | _ \<Rightarrow> v)"

text \<open>
  A library instance for evaluating the examples: text conversion gives the empty text,
  the Timestamp constructor adds the nanoseconds to the instant, \<open>round\<close> rounds decimal
  values half to even, and the replacements change nothing.
\<close>

definition plain_library :: library where
  "plain_library =
     \<lparr> astype_str = (\<lambda>v. []),
       Timestamp_new = (\<lambda>t n tz. Some (Timestamp (t + n) tz)),
       py_round = round_decimal,
       replace_NA = (\<lambda>vs. vs),
       re_sub_padding = (\<lambda>s. s),
       re_sub_utc = (\<lambda>s. s) \<rparr>"

text \<open>The schema row of a column of the given SQL type; the other fields are not read.\<close>

definition row_of_type :: "string \<Rightarrow> schema_row" where
  "row_of_type t =
     \<lparr> sql_type = t, sql_category = ''date time'', min_value = NA, max_value = NA,
       pandas_type = ''object'', odbc_type = SQL_VARCHAR, odbc_size = 0, odbc_precision = 0,
       data_type = 0, column_size = 0, decimal_digits = 0, is_nullable = True,
       ss_is_identity = False, pk_seq = None, pk_name = None \<rparr>"

text \<open>Casts that succeed and only set the dtype, for evaluating the examples.\<close>

definition plain_casts :: casts where
  "plain_casts =
     \<lparr> astype = (\<lambda>t s. Inr (s\<lparr> dtype := t \<rparr>)),
       apply_Timestamp = (\<lambda>s. Inr s) \<rparr>"

text \<open>An introspected column of the given name and type name, of size 10 and not nullable.\<close>

definition column_of :: "string \<Rightarrow> string \<Rightarrow> column_row" where
  "column_of n t =
     \<lparr> column_name = n, data_type_raw = 0, column_size_raw = 10, decimal_digits_raw = None,
       type_name = t, is_nullable_raw = ''NO'', ss_is_identity_raw = 0 \<rparr>"

text \<open>The dataframe a call returns, if it returns one.\<close>

definition returned_dataframe :: "(error + DataFrame \<times> 'v) \<times> warning list \<Rightarrow> DataFrame option" where
  "returned_dataframe r = (case fst r of Inr (d, vals) \<Rightarrow> Some d | Inl e \<Rightarrow> None)"

text \<open>
  A schema with one column of each SQL type that a precision rule adjusts, and a frame with
  one value in each of them that the rule of the column rounds.
\<close>

definition example_schema :: schema where
  "example_schema =
     [(''t'', row_of_type ''time''), (''d'', row_of_type ''datetime''),
      (''e'', row_of_type ''datetime2''), (''o'', row_of_type ''datetimeoffset''),
      (''n'', row_of_type ''numeric'')]"

definition example_frame :: frame where
  "example_frame =
     [(''t'', [Timedelta 90]), (''d'', [Timestamp 8000000 None]),
      (''e'', [Timestamp 149 None]), (''o'', [Timestamp 151 None]), (''n'', [Number (3 / 2)])]"

text \<open>The frame as a dataframe with a named index that is not a column of the schema.\<close>

definition example_dataframe :: DataFrame where
  "example_dataframe = \<lparr> index = [(''k'', [Number 7])], columns = example_frame \<rparr>"



text \<open>A table with an identity key and a text column, and its columns as the driver lists them.\<close>

definition example_columns :: "string \<Rightarrow> string option \<Rightarrow> string option \<Rightarrow> column_row list" where
  "example_columns table_name catalog schema_name =
     [column_of ''id'' ''int identity'', column_of ''name'' ''varchar'']"

section \<open>Properties of the merge statement\<close>

lemma merge_args_eq:
  "merge_args table_name temp_name m u i d =
     [table_name, temp_name] @ m @ u @ i @ (case d of None \<Rightarrow> [] | Some dr \<Rightarrow> dr)"
  by (simp add: merge_args_def split: option.splits)

text \<open>
  C1. The text of the merge statement is built from the template and from aliases numbered
  by position; the names of the table and of the columns are only the values bound to
  its placeholders. Two calls with the same settings for upsert and metadata timestamps whose
  lists of match, update, insert and delete-guard columns have the same lengths emit the
  same text, whatever the names are.
\<close>

theorem merge_statement_identifier_free:
  assumes "length m1 = length m2" and "length u1 = length u2" and "length i1 = length i2"
    and "(case d1 of None \<Rightarrow> 0 | Some dr \<Rightarrow> length dr)
         = (case d2 of None \<Rightarrow> 0 | Some dr \<Rightarrow> length dr)"
  shows "merge_statement ts upsert m1 u1 i1 d1 = merge_statement ts upsert m2 u2 i2 d2
         \<and> merge_args table_name temp_name m1 u1 i1 d1
           = [table_name, temp_name] @ m1 @ u1 @ i1 @ (case d1 of None \<Rightarrow> [] | Some dr \<Rightarrow> dr)"
proof -
  have "alias_conditions d1 = alias_conditions d2"
    using assms(4) by (simp add: alias_conditions_def alias_of_def split: option.splits)
  moreover have "alias_of m1 = alias_of m2" "alias_of u1 = alias_of u2" "alias_of i1 = alias_of i2"
    using assms(1-3) by (simp_all add: alias_of_def)
  ultimately have "merge_statement ts upsert m1 u1 i1 d1 = merge_statement ts upsert m2 u2 i2 d2"
    by (simp add: merge_statement_def)
  then show ?thesis
    by (simp add: merge_args_eq)
qed

theorem merge_statement_identifier_free_witness:
  "merge_statement True False [''id''] [''price''] [''id'', ''price''] (Some [''region''])
   = merge_statement True False [''x]; DROP TABLE t; --''] [''a''] [''b'', ''c''] (Some [''d''])
   \<and> merge_args ''SomeTable'' ''#tmp'' [''id''] [''price''] [''id'', ''price''] (Some [''region''])
     = [''SomeTable'', ''#tmp'', ''id'', ''price'', ''id'', ''price'', ''region'']"
  using merge_statement_identifier_free
          [of "[''id'']" "[''x]; DROP TABLE t; --'']" "[''price'']" "[''a'']"
              "[''id'', ''price'']" "[''b'', ''c'']" "Some [''region'']" "Some [''d'']"
              True False "''SomeTable''" "''#tmp''"]
  by simp

text \<open>
  C5. A call of merge with \<open>upsert=True\<close> and a non-empty \<open>delete_requires\<close> raises the
  configuration error at once: nothing is staged, the cursor has received no statement and
  is returned as it was.
\<close>

theorem merge_rejects_upsert_with_delete_requires:
  assumes "delete_requires \<noteq> []"
  shows "merge source_table escape include_metadata_timestamps cursor table_name dataframe
           match_columns True (Some delete_requires)
         = (Inl ValueError_delete_requires, cursor)"
  by (simp add: merge_def)

theorem merge_rejects_upsert_with_delete_requires_witness:
  "[''ColumnC''] \<noteq> [] \<and>
   merge (\<lambda>t d c m a. (Inr ((), d, [''ColumnA''], ''#tmp''), c @ [Execute ''CREATE TABLE #tmp'' []]))
         (\<lambda>c n. (Inr n, c)) False [] ''SomeTable''
         \<lparr> index = [], columns = [(''ColumnA'', [Number 1]), (''ColumnC'', [Number 2])] \<rparr>
         None True (Some [''ColumnC''])
   = (Inl ValueError_delete_requires, [])"
  using merge_rejects_upsert_with_delete_requires [of "[''ColumnC'']"] by simp

section \<open>Properties of the type registry\<close>

text \<open>
  C4. The registry has entries for exactly eleven SQL types: bit, the four integer types,
  float, time, date, datetime2, varchar and nvarchar. It has no entry for
  \<open>datetimeoffset\<close> (the timestamp with a time zone) nor for the fixed-width character
  types \<open>char\<close> and \<open>nchar\<close>, which the claim lists.
\<close>

theorem registry_entries:
  "map sql_type rules
     = [''bit'', ''tinyint'', ''smallint'', ''int'', ''bigint'', ''float'', ''time'', ''date'',
        ''datetime2'', ''varchar'', ''nvarchar'']
   \<and> lookup ''datetimeoffset'' = None \<and> lookup ''char'' = None \<and> lookup ''nchar'' = None"
  by (simp add: lookup_def rules_def)

section \<open>Properties of the schema description\<close>

lemma lookup_int:
  "lookup ''int''
   = Some \<lparr> sql_type = ''int'', sql_category = ''exact numeric'',
            min_value = Number (- (2 ^ 31)), max_value = Number (2 ^ 31 - 1),
            pandas_type = ''Int32'', odbc_type = SQL_INTEGER, odbc_size = 4, odbc_precision = 0 \<rparr>"
  by (simp add: lookup_def rules_def)

lemma lookup_int_identity: "lookup ''int identity'' = None"
  by (simp add: lookup_def rules_def)

lemma undefined_rules_member:
  "n \<in> set (undefined_rules (join_rules rows pk))
   \<Longrightarrow> \<exists>col \<in> set rows. column_name col = n \<and> lookup (lookup_key (type_name col)) = None"
  by (auto simp: undefined_rules_def join_rules_def)

lemma schema_rows_complete:
  assumes "undefined_rules (join_rules rows pk) = []"
  shows "schema_rows (join_rules rows pk)
         = map (\<lambda>col. (column_name col,
                        make_row col (find (\<lambda>k. pk_column_name k = column_name col) pk)
                          (the (lookup (lookup_key (type_name col)))))) rows"
  using assms
proof (induction rows)
  case Nil
  then show ?case by (simp add: schema_rows_def join_rules_def)
next
  case (Cons col rows)
  from Cons.prems have r: "lookup (lookup_key (type_name col)) \<noteq> None"
    and rest: "undefined_rules (join_rules rows pk) = []"
    by (auto simp: undefined_rules_def join_rules_def split: if_splits)
  from Cons.IH [OF rest] r show ?case
    by (auto simp: schema_rows_def join_rules_def)
qed

lemma table_schema_Inr:
  assumes "table_schema cc cpk tn0 dc ac = Inr schema"
    and "qualifiers tn0 = Inr (sn, tn, cat)"
  shows "undefined_rules (join_rules (cc tn cat sn) (cpk tn cat)) = []
         \<and> schema = schema_rows (join_rules (cc tn cat sn) (cpk tn cat))"
  using assms by (simp add: table_schema_def Let_def split: if_splits)

lemma table_schema_undefined:
  assumes "table_schema cc cpk tn0 dc ac = Inl (UndefinedConversionRule missing)"
    and "qualifiers tn0 = Inr (sn, tn, cat)"
  shows "missing = undefined_rules (join_rules (cc tn cat sn) (cpk tn cat))"
  using assms by (simp add: table_schema_def Let_def split: if_splits)

text \<open>
  C9, as stated, fails: the identity form of an integer type other than \<open>int\<close> is not
  normalized. A table whose key column has the type name \<open>bigint identity\<close> is rejected
  with \<open>UndefinedConversionRule\<close>.
\<close>

theorem bigint_identity_undefined:
  "table_schema (\<lambda>t c s. [column_of ''id'' ''bigint identity'']) (\<lambda>t c. []) ''T'' None None
   = Inl (UndefinedConversionRule [''id''])"
  by (simp add: table_schema_def qualifiers_def join_rules_def undefined_rules_def
        lookup_key_def column_of_def lookup_def rules_def)

text \<open>
  C9, amended. For every introspected column whose type name is \<open>int identity\<close>, in a table
  whose column names are distinct: the registry has no entry of that name and the column
  is looked up as \<open>int\<close>; the column is never among those \<open>UndefinedConversionRule\<close>
  reports; and in the schema that \<open>get_schema\<close> returns its row carries the rule of
  \<open>int\<close> with \<open>sql_type\<close> set back to \<open>int identity\<close>.
\<close>

theorem int_identity_column_described:
  assumes q: "qualifiers qualified_name = Inr (schema_name, table_name, catalog)"
    and col: "col \<in> set (cursor_columns table_name catalog schema_name)"
    and ty: "type_name col = ''int identity''"
    and dist: "distinct (map column_name (cursor_columns table_name catalog schema_name))"
  shows "lookup ''int identity'' = None
       \<and> lookup (lookup_key (type_name col)) = lookup ''int''
       \<and> (\<forall>missing. table_schema cursor_columns cursor_primaryKeys qualified_name dataframe_columns
                        additional_columns = Inl (UndefinedConversionRule missing)
                      \<longrightarrow> column_name col \<notin> set missing)
       \<and> (\<forall>schema df1. get_schema lib cursor_columns cursor_primaryKeys qualified_name dataframe
                           additional_columns = Inr (schema, df1)
                         \<longrightarrow> (\<exists>r. map_of schema (column_name col) = Some r
                                  \<and> sql_type r = ''int identity''
                                  \<and> sql_category r = ''exact numeric''
                                  \<and> min_value r = Number (- (2 ^ 31))
                                  \<and> max_value r = Number (2 ^ 31 - 1)
                                  \<and> pandas_type r = ''Int32''
                                  \<and> odbc_type r = SQL_INTEGER))"
proof (intro conjI allI impI)
  show "lookup ''int identity'' = None" by (rule lookup_int_identity)
next
  show "lookup (lookup_key (type_name col)) = lookup ''int''"
    using ty by (simp add: lookup_key_def)
next
  fix missing
  let ?rows = "cursor_columns table_name catalog schema_name"
  assume "table_schema cursor_columns cursor_primaryKeys qualified_name dataframe_columns
            additional_columns = Inl (UndefinedConversionRule missing)"
  from table_schema_undefined [OF this q]
  have m: "missing = undefined_rules (join_rules ?rows (cursor_primaryKeys table_name catalog))" .
  show "column_name col \<notin> set missing"
  proof
    assume "column_name col \<in> set missing"
    with m obtain col' where c': "col' \<in> set ?rows" and n: "column_name col' = column_name col"
      and l: "lookup (lookup_key (type_name col')) = None"
      using undefined_rules_member by blast
    from dist c' col n have "col' = col" by (auto simp: distinct_map inj_on_def)
    with l ty lookup_int show False by (simp add: lookup_key_def)
  qed
next
  fix schema df1
  let ?rows = "cursor_columns table_name catalog schema_name"
  let ?pk = "cursor_primaryKeys table_name catalog"
  assume g: "get_schema lib cursor_columns cursor_primaryKeys qualified_name dataframe
               additional_columns = Inr (schema, df1)"
  then have "table_schema cursor_columns cursor_primaryKeys qualified_name
               (map_option (\<lambda>df. map fst (cols df)) dataframe) additional_columns = Inr schema"
    by (auto simp: get_schema_def split: sum.splits option.splits)
  from table_schema_Inr [OF this q]
  have u: "undefined_rules (join_rules ?rows ?pk) = []"
    and s: "schema = schema_rows (join_rules ?rows ?pk)" by simp_all
  let ?row = "\<lambda>col. make_row col (find (\<lambda>k. pk_column_name k = column_name col) ?pk)
                       (the (lookup (lookup_key (type_name col))))"
  from s schema_rows_complete [OF u]
  have sch: "schema = map (\<lambda>col. (column_name col, ?row col)) ?rows" by simp
  then have names: "map fst schema = map column_name ?rows" by (simp add: comp_def)
  from sch col have "(column_name col, ?row col) \<in> set schema" by auto
  with dist names have "map_of schema (column_name col) = Some (?row col)" by simp
  moreover have "sql_type (?row col) = ''int identity''" using ty by (simp add: make_row_def)
  moreover have "sql_category (?row col) = ''exact numeric''"
    "min_value (?row col) = Number (- (2 ^ 31))" "max_value (?row col) = Number (2 ^ 31 - 1)"
    "pandas_type (?row col) = ''Int32''" "odbc_type (?row col) = SQL_INTEGER"
    using ty lookup_int by (simp_all add: make_row_def lookup_key_def)
  ultimately show "\<exists>r. map_of schema (column_name col) = Some r
                                  \<and> sql_type r = ''int identity''
                                  \<and> sql_category r = ''exact numeric''
                                  \<and> min_value r = Number (- (2 ^ 31))
                                  \<and> max_value r = Number (2 ^ 31 - 1)
                                  \<and> pandas_type r = ''Int32''
                                  \<and> odbc_type r = SQL_INTEGER"
    by blast
qed

theorem int_identity_column_described_witness:
  "qualifiers ''dbo.T'' = Inr (Some ''dbo'', ''T'', None)
   \<and> column_of ''id'' ''int identity'' \<in> set (example_columns ''T'' None (Some ''dbo''))
   \<and> type_name (column_of ''id'' ''int identity'') = ''int identity''
   \<and> distinct (map column_name (example_columns ''T'' None (Some ''dbo'')))
   \<and> get_schema plain_casts example_columns (\<lambda>t c. []) ''dbo.T'' None None
     = Inr (schema_rows (join_rules (example_columns ''T'' None (Some ''dbo'')) []), None)
   \<and> (\<exists>r. map_of (schema_rows (join_rules (example_columns ''T'' None (Some ''dbo'')) []))
              (column_name (column_of ''id'' ''int identity'')) = Some r
          \<and> sql_type r = ''int identity''
          \<and> sql_category r = ''exact numeric''
          \<and> min_value r = Number (- (2 ^ 31))
          \<and> max_value r = Number (2 ^ 31 - 1)
          \<and> pandas_type r = ''Int32''
          \<and> odbc_type r = SQL_INTEGER)"
proof -
  have q: "qualifiers ''dbo.T'' = Inr (Some ''dbo'', ''T'', None)"
    by (simp add: qualifiers_def)
  have c: "column_of ''id'' ''int identity'' \<in> set (example_columns ''T'' None (Some ''dbo''))"
    by (simp add: example_columns_def)
  have t: "type_name (column_of ''id'' ''int identity'') = ''int identity''"
    by (simp add: column_of_def)
  have d: "distinct (map column_name (example_columns ''T'' None (Some ''dbo'')))"
    by (simp add: example_columns_def column_of_def)
  have u: "undefined_rules (join_rules (example_columns ''T'' None (Some ''dbo'')) []) = []"
    by (simp add: undefined_rules_def join_rules_def example_columns_def column_of_def
          lookup_key_def lookup_def rules_def)
  have g: "get_schema plain_casts example_columns (\<lambda>t c. []) ''dbo.T'' None None
           = Inr (schema_rows (join_rules (example_columns ''T'' None (Some ''dbo'')) []), None)"
    using q u by (simp add: get_schema_def table_schema_def Let_def example_columns_def)
  from int_identity_column_described
         [where cursor_columns = example_columns and qualified_name = "''dbo.T''"
            and schema_name = "Some ''dbo''" and table_name = "''T''" and catalog = None
            and col = "column_of ''id'' ''int identity''" and cursor_primaryKeys = "\<lambda>t c. []"
            and lib = plain_casts and dataframe = None and additional_columns = None
            and dataframe_columns = None]
       q c t d g
  have "\<exists>r. map_of (schema_rows (join_rules (example_columns ''T'' None (Some ''dbo'')) []))
              (column_name (column_of ''id'' ''int identity'')) = Some r
          \<and> sql_type r = ''int identity''
          \<and> sql_category r = ''exact numeric''
          \<and> min_value r = Number (- (2 ^ 31))
          \<and> max_value r = Number (2 ^ 31 - 1)
          \<and> pandas_type r = ''Int32''
          \<and> odbc_type r = SQL_INTEGER"
    by blast
  with q c t d g show ?thesis by blast
qed

section \<open>Properties of the coercion\<close>

text \<open>
  C2. The registry names its categories \<open>exact numeric\<close>, \<open>approximate numeric\<close> and
  \<open>date time\<close>, while \<open>convert_largest_sql_category\<close> selects the columns to widen by
  the names \<open>exact_whole_numeric\<close>, \<open>approximate_decimal_numeric\<close> and \<open>date_time\<close>. An
  object column of a \<open>tinyint\<close> column of the table is therefore returned as it came, of
  dtype object, whatever the casts of pandas do; only a text column is widened.
\<close>

theorem object_integer_column_not_widened:
  "map sql_category rules
     = [''boolean'', ''exact numeric'', ''exact numeric'', ''exact numeric'', ''exact numeric'',
        ''approximate numeric'', ''date time'', ''date time'', ''date time'',
        ''character string'', ''character string'']
   \<and> convert_largest_sql_category lib
         [(''a'', \<lparr> dtype = ''object'', cells = [Number 1000] \<rparr>)]
         [(''a'', make_row (column_of ''a'' ''tinyint'') None (the (lookup ''tinyint'')))]
       = Inr [(''a'', \<lparr> dtype = ''object'', cells = [Number 1000] \<rparr>)]"
  by (simp add: convert_largest_sql_category_def category_of_def type_of_def make_row_def
        column_of_def lookup_def rules_def)


























section \<open>Properties of the precision adjustment\<close>

lemma getcol_update: "getcol (AList.update k v f) c = (if c = k then v else getcol f c)"
  by (simp add: getcol_def update_conv')

lemma assign_rounded_Cons:
  "assign_rounded f (x # xs) (p, d)
   = assign_rounded f xs (AList.update x (map f (getcol d x)) p, AList.update x (map f (getcol d x)) d)"
  by (simp add: assign_rounded_def Let_def)

lemma assign_rounded_dataframe:
  "distinct cs \<Longrightarrow>
   getcol (snd (assign_rounded f cs (p, d))) c
   = (if c \<in> set cs then map f (getcol d c) else getcol d c)"
proof (induction cs arbitrary: p d)
  case Nil
  then show ?case by (simp add: assign_rounded_def)
next
  case (Cons x xs)
  then show ?case by (auto simp: assign_rounded_Cons getcol_update)
qed

lemma assign_datetime_Cons:
  "assign_datetime (x # xs) (p, d)
   = assign_datetime xs (AList.update x (map2 round_datetime (getcol d x) (getcol p x)) p,
                         AList.update x (map2 round_datetime (getcol d x) (getcol p x)) d)"
  by (simp add: assign_datetime_def Let_def)

lemma assign_datetime_dataframe:
  "distinct cs \<Longrightarrow>
   getcol (snd (assign_datetime cs (p, d))) c
   = (if c \<in> set cs then map2 round_datetime (getcol d c) (getcol p c) else getcol d c)"
proof (induction cs arbitrary: p d)
  case Nil
  then show ?case by (simp add: assign_datetime_def)
next
  case (Cons x xs)
  then show ?case by (auto simp: assign_datetime_Cons getcol_update)
qed

lemma assign_localized_Cons:
  "assign_localized (x # xs) (p, d)
   = assign_localized xs (AList.update x (map localize_utc (getcol d x)) p,
                          AList.update x (map localize_utc (getcol d x)) d)"
  by (simp add: assign_localized_def Let_def)

lemma assign_localized_dataframe:
  "distinct cs \<Longrightarrow>
   getcol (snd (assign_localized cs (p, d))) c
   = (if c \<in> set cs then map localize_utc (getcol d c) else getcol d c)"
proof (induction cs arbitrary: p d)
  case Nil
  then show ?case by (simp add: assign_localized_def)
next
  case (Cons x xs)
  then show ?case by (auto simp: assign_localized_Cons getcol_update)
qed

lemma assign_timestamps_dataframe:
  "assign_timestamps lib k cs (p, d) = Some (p1, d1) \<Longrightarrow> distinct cs \<Longrightarrow>
   (if c \<in> set cs then those (map (round_timestamp lib k) (getcol d c)) = Some (getcol d1 c)
    else getcol d1 c = getcol d c)"
proof (induction cs arbitrary: p d)
  case Nil
  then show ?case by simp
next
  case (Cons x xs)
  from Cons.prems(1) obtain rounded where
    r: "those (map (round_timestamp lib k) (getcol d x)) = Some rounded"
    and rest: "assign_timestamps lib k xs (AList.update x rounded p, AList.update x rounded d) = Some (p1, d1)"
    by (auto split: option.splits)
  from Cons.prems(2) have dx: "distinct xs" and nx: "x \<notin> set xs" by simp_all
  note ih = Cons.IH [OF rest dx]
  show ?case
  proof (cases "c = x")
    case True
    with ih nx r show ?thesis by (simp add: getcol_update)
  next
    case False
    with ih show ?thesis by (auto simp add: getcol_update split: if_splits)
  qed
qed

lemma numeric_loop_dataframe:
  "numeric_loop lib schema cs p d ws = (Inr (p1, d1), ws1) \<Longrightarrow> distinct cs \<Longrightarrow>
   getcol d1 c
   = (if c \<in> set cs
      then map (\<lambda>x. if x \<noteq> NA
                     then py_round lib x (case map_of schema c of Some r \<Rightarrow> decimal_digits r | None \<Rightarrow> 0)
                     else x) (replace_NA lib (getcol d c))
      else getcol d c)"
proof (induction cs arbitrary: p d ws)
  case Nil
  then show ?case by simp
next
  case (Cons x xs)
  then show ?case
    by (auto simp: Let_def getcol_update split: if_splits)
qed

lemma distinct_columns_of_type:
  "distinct (map fst schema) \<Longrightarrow> distinct (columns_of_type ts schema)"
  by (simp add: columns_of_type_def distinct_map_filter)

lemma distinct_columns_with:
  "distinct cs \<Longrightarrow> distinct (columns_with P f cs)"
  by (simp add: columns_with_def)

lemma prepare_time_dataframe:
  assumes "prepare_time lib schema p d = (Inr (p1, d1), ws)" and "distinct (map fst schema)"
  shows "getcol d1 c = (if c \<in> set (time_truncation schema p)
                        then map round_timedelta (getcol d c) else getcol d c)"
proof -
  have dist: "distinct (time_truncation schema p)"
    using assms(2)
    by (simp add: time_truncation_def Let_def distinct_columns_with distinct_columns_of_type)
  have "d1 = snd (assign_rounded round_timedelta (time_truncation schema p) (p, d))"
    using assms(1)
    by (auto simp: prepare_time_def Let_def split: if_splits prod.splits)
  then show ?thesis
    using assign_rounded_dataframe [OF dist] by simp
qed

lemma prepare_datetime_dataframe:
  assumes "prepare_datetime lib schema p d = (Inr (p1, d1), ws)" and "distinct (map fst schema)"
  shows "getcol d1 c = (if c \<in> set (datetime_adjusted schema p)
                        then map2 round_datetime (getcol d c) (getcol p c) else getcol d c)"
proof -
  have dist: "distinct (datetime_adjusted schema p)"
    using assms(2)
    by (simp add: datetime_adjusted_def Let_def distinct_columns_with distinct_columns_of_type)
  show ?thesis
  proof (cases "datetime_adjusted schema p = []")
    case True
    with assms(1) have "d1 = d"
      by (auto simp: prepare_datetime_def Let_def split: if_splits)
    with True show ?thesis by simp
  next
    case False
    with assms(1) have "d1 = snd (assign_datetime (datetime_adjusted schema p) (p, d))"
      by (auto simp: prepare_datetime_def Let_def split: if_splits prod.splits)
    then show ?thesis
      using assign_datetime_dataframe [OF dist] by simp
  qed
qed

lemma prepare_datetime2_dataframe:
  assumes "prepare_datetime2 lib schema p d = (Inr (p1, d1), ws)" and "distinct (map fst schema)"
  shows "if c \<in> set (datetime2_truncation schema p)
         then those (map (round_timestamp lib False) (getcol d c)) = Some (getcol d1 c)
         else getcol d1 c = getcol d c"
proof -
  have dist: "distinct (datetime2_truncation schema p)"
    using assms(2)
    by (simp add: datetime2_truncation_def Let_def distinct_columns_with distinct_columns_of_type)
  show ?thesis
  proof (cases "datetime2_truncation schema p = []")
    case True
    with assms(1) have "d1 = d"
      by (auto simp: prepare_datetime2_def Let_def split: if_splits)
    with True show ?thesis by simp
  next
    case False
    with assms(1) obtain p' where
      "assign_timestamps lib False (datetime2_truncation schema p) (p, d) = Some (p', d1)"
      by (auto simp: prepare_datetime2_def Let_def split: if_splits option.splits)
    then show ?thesis
      using assign_timestamps_dataframe dist by blast
  qed
qed

lemma prepare_datetimeoffset_dataframe:
  assumes "prepare_datetimeoffset lib schema p d = (Inr (p1, d1), ws)"
    and "distinct (map fst schema)"
  shows "if c \<in> set (datetimeoffset_truncation schema
                        (fst (assign_localized (columns_of_type [''datetimeoffset''] schema) (p, d))))
         then those (map (round_timestamp lib True) (map localize_utc (getcol d c)))
              = Some (getcol d1 c)
         else if c \<in> set (columns_of_type [''datetimeoffset''] schema)
         then getcol d1 c = map localize_utc (getcol d c)
         else getcol d1 c = getcol d c"
proof -
  let ?dtype = "columns_of_type [''datetimeoffset''] schema"
  let ?pd = "assign_localized ?dtype (p, d)"
  let ?tr = "datetimeoffset_truncation schema (fst ?pd)"
  have dd: "distinct ?dtype" using assms(2) by (rule distinct_columns_of_type)
  have dist: "distinct ?tr"
    using dd by (simp add: datetimeoffset_truncation_def distinct_columns_with)
  have sub: "set ?tr \<subseteq> set ?dtype"
    by (auto simp: datetimeoffset_truncation_def columns_with_def)
  have loc: "getcol (snd ?pd) c = (if c \<in> set ?dtype then map localize_utc (getcol d c) else getcol d c)"
    using assign_localized_dataframe [OF dd] by simp
  show ?thesis
  proof (cases "?tr = []")
    case True
    with assms(1) have "d1 = snd ?pd"
      by (auto simp: prepare_datetimeoffset_def Let_def split: if_splits prod.splits)
    with True loc show ?thesis by simp
  next
    case False
    with assms(1) obtain p' where
      "assign_timestamps lib True ?tr (fst ?pd, snd ?pd) = Some (p', d1)"
      by (auto simp: prepare_datetimeoffset_def Let_def split: if_splits option.splits prod.splits)
    from assign_timestamps_dataframe [OF this dist, of c] loc sub show ?thesis
      by (auto split: if_splits)
  qed
qed

lemma prepare_numeric_dataframe:
  assumes "prepare_numeric lib schema p d = (Inr (p1, d1), ws)" and "distinct (map fst schema)"
  shows "getcol d1 c
         = (if c \<in> set (columns_of_type [''numeric'', ''decimal''] schema)
            then map (\<lambda>x. if x \<noteq> NA
                           then py_round lib x (case map_of schema c of Some r \<Rightarrow> decimal_digits r | None \<Rightarrow> 0)
                           else x) (replace_NA lib (getcol d c))
            else getcol d c)"
  using numeric_loop_dataframe [OF assms(1) [unfolded prepare_numeric_def]
          distinct_columns_of_type [OF assms(2)]] .

lemma render_columns_Cons:
  "render_columns f (x # xs) p = render_columns f xs (AList.update x (map f (getcol p x)) p)"
  by (simp add: render_columns_def)

lemma render_columns_getcol:
  "distinct cs \<Longrightarrow>
   getcol (render_columns f cs p) c = (if c \<in> set cs then map f (getcol p c) else getcol p c)"
proof (induction cs arbitrary: p)
  case Nil
  then show ?case by (simp add: render_columns_def)
next
  case (Cons x xs)
  then show ?case by (auto simp: render_columns_Cons getcol_update)
qed

lemma assign_rounded_prepped:
  "distinct cs \<Longrightarrow>
   getcol (fst (assign_rounded f cs (p, d))) c
   = (if c \<in> set cs then map f (getcol d c) else getcol p c)"
proof (induction cs arbitrary: p d)
  case Nil
  then show ?case by (simp add: assign_rounded_def)
next
  case (Cons x xs)
  then show ?case by (auto simp: assign_rounded_Cons getcol_update)
qed

lemma assign_datetime_prepped:
  "distinct cs \<Longrightarrow>
   getcol (fst (assign_datetime cs (p, d))) c
   = (if c \<in> set cs then map2 round_datetime (getcol d c) (getcol p c) else getcol p c)"
proof (induction cs arbitrary: p d)
  case Nil
  then show ?case by (simp add: assign_datetime_def)
next
  case (Cons x xs)
  then show ?case by (auto simp: assign_datetime_Cons getcol_update)
qed

lemma assign_localized_prepped:
  "distinct cs \<Longrightarrow>
   getcol (fst (assign_localized cs (p, d))) c
   = (if c \<in> set cs then map localize_utc (getcol d c) else getcol p c)"
proof (induction cs arbitrary: p d)
  case Nil
  then show ?case by (simp add: assign_localized_def)
next
  case (Cons x xs)
  then show ?case by (auto simp: assign_localized_Cons getcol_update)
qed

lemma assign_timestamps_prepped:
  "assign_timestamps lib k cs (p, d) = Some (p1, d1) \<Longrightarrow> distinct cs \<Longrightarrow>
   (if c \<in> set cs then those (map (round_timestamp lib k) (getcol d c)) = Some (getcol p1 c)
    else getcol p1 c = getcol p c)"
proof (induction cs arbitrary: p d)
  case Nil
  then show ?case by simp
next
  case (Cons x xs)
  from Cons.prems(1) obtain rounded where
    r: "those (map (round_timestamp lib k) (getcol d x)) = Some rounded"
    and rest: "assign_timestamps lib k xs (AList.update x rounded p, AList.update x rounded d) = Some (p1, d1)"
    by (auto split: option.splits)
  from Cons.prems(2) have dx: "distinct xs" and nx: "x \<notin> set xs" by simp_all
  note ih = Cons.IH [OF rest dx]
  show ?case
  proof (cases "c = x")
    case True
    with ih nx r show ?thesis by (simp add: getcol_update)
  next
    case False
    with ih show ?thesis by (auto simp add: getcol_update split: if_splits)
  qed
qed

lemma numeric_loop_prepped:
  "numeric_loop lib schema cs p d ws = (Inr (p1, d1), ws1) \<Longrightarrow> distinct cs \<Longrightarrow>
   getcol p1 c
   = (if c \<in> set cs
      then map (\<lambda>x. if x \<noteq> NA
                     then py_round lib x (case map_of schema c of Some r \<Rightarrow> decimal_digits r | None \<Rightarrow> 0)
                     else x) (replace_NA lib (getcol d c))
      else getcol p c)"
proof (induction cs arbitrary: p d ws)
  case Nil
  then show ?case by simp
next
  case (Cons x xs)
  then show ?case
    by (auto simp: Let_def getcol_update split: if_splits)
qed

lemma time_truncation_member:
  "c \<in> set (time_truncation schema p) \<longleftrightarrow>
   c \<in> set (columns_of_type [''time''] schema) \<and> py_any (columns_of_type [''time''] schema)
   \<and> list_ex timedelta_truncated (getcol p c)"
  by (auto simp: time_truncation_def columns_with_def Let_def)

lemma datetime_adjusted_member:
  "c \<in> set (datetime_adjusted schema p) \<longleftrightarrow>
   c \<in> set (columns_of_type [''datetime''] schema) \<and> py_any (columns_of_type [''datetime''] schema)
   \<and> list_ex datetime_adjust (getcol p c)"
  by (auto simp: datetime_adjusted_def columns_with_def Let_def)

lemma datetime2_truncation_member:
  "c \<in> set (datetime2_truncation schema p) \<longleftrightarrow>
   c \<in> set (columns_of_type [''datetime2''] schema) \<and> py_any (columns_of_type [''datetime2''] schema)
   \<and> list_ex timestamp_truncated (getcol p c)"
  by (auto simp: datetime2_truncation_def columns_with_def Let_def)

lemma datetimeoffset_truncation_member:
  "c \<in> set (datetimeoffset_truncation schema p) \<longleftrightarrow>
   c \<in> set (columns_of_type [''datetimeoffset''] schema) \<and> list_ex timestamp_truncated (getcol p c)"
  by (auto simp: datetimeoffset_truncation_def columns_with_def)

lemma prepare_time_columns:
  assumes "prepare_time lib schema p d = (Inr (p1, d1), ws)" and "distinct (map fst schema)"
  shows "getcol d1 c
         = (if c \<in> set (columns_of_type [''time''] schema)
               \<and> py_any (columns_of_type [''time''] schema)
               \<and> list_ex timedelta_truncated (getcol p c)
            then map round_timedelta (getcol d c) else getcol d c)
       \<and> getcol p1 c
         = (if c \<in> set (columns_of_type [''time''] schema)
               \<and> py_any (columns_of_type [''time''] schema)
            then map (render lib 7 23)
                   (if list_ex timedelta_truncated (getcol p c)
                    then map round_timedelta (getcol d c) else getcol p c)
            else getcol p c)"
proof -
  let ?T = "columns_of_type [''time''] schema"
  let ?tr = "time_truncation schema p"
  let ?A = "assign_rounded round_timedelta ?tr (p, d)"
  have dT: "distinct ?T" using assms(2) by (rule distinct_columns_of_type)
  have dtr: "distinct ?tr"
    using assms(2)
    by (simp add: time_truncation_def Let_def distinct_columns_with distinct_columns_of_type)
  have p1: "p1 = (if py_any ?T then render_columns (render lib 7 23) ?T (fst ?A) else fst ?A)"
    using assms(1)
    by (auto simp: prepare_time_def Let_def split: if_splits prod.splits)
  have a: "getcol (fst ?A) c = (if c \<in> set ?tr then map round_timedelta (getcol d c) else getcol p c)"
    by (rule assign_rounded_prepped [OF dtr])
  have r: "getcol (render_columns (render lib 7 23) ?T (fst ?A)) c
           = (if c \<in> set ?T then map (render lib 7 23) (getcol (fst ?A) c) else getcol (fst ?A) c)"
    by (rule render_columns_getcol [OF dT])
  have 2: "getcol p1 c
         = (if c \<in> set ?T \<and> py_any ?T
            then map (render lib 7 23)
                   (if list_ex timedelta_truncated (getcol p c)
                    then map round_timedelta (getcol d c) else getcol p c)
            else getcol p c)"
    unfolding p1 using a r by (auto simp: time_truncation_member)
  have 1: "getcol d1 c
         = (if c \<in> set ?T \<and> py_any ?T \<and> list_ex timedelta_truncated (getcol p c)
            then map round_timedelta (getcol d c) else getcol d c)"
    using prepare_time_dataframe [OF assms, of c] by (simp add: time_truncation_member)
  from 1 2 show ?thesis ..
qed

lemma prepare_datetime_columns:
  assumes "prepare_datetime lib schema p d = (Inr (p1, d1), ws)" and "distinct (map fst schema)"
  shows "getcol d1 c
         = (if c \<in> set (columns_of_type [''datetime''] schema)
               \<and> py_any (columns_of_type [''datetime''] schema)
               \<and> list_ex datetime_adjust (getcol p c)
            then map2 round_datetime (getcol d c) (getcol p c) else getcol d c)
       \<and> getcol p1 c
         = (if c \<in> set (columns_of_type [''datetime''] schema)
               \<and> py_any (columns_of_type [''datetime''] schema)
            then map (render lib 0 27)
                   (if list_ex datetime_adjust (getcol p c)
                    then map2 round_datetime (getcol d c) (getcol p c) else getcol p c)
            else getcol p c)"
proof -
  let ?T = "columns_of_type [''datetime''] schema"
  let ?adj = "datetime_adjusted schema p"
  let ?A = "assign_datetime ?adj (p, d)"
  have dT: "distinct ?T" using assms(2) by (rule distinct_columns_of_type)
  have dadj: "distinct ?adj"
    using assms(2)
    by (simp add: datetime_adjusted_def Let_def distinct_columns_with distinct_columns_of_type)
  have A0: "?A = (p, d)" if "?adj = []"
    using that by (simp add: assign_datetime_def)
  have p1: "p1 = (if py_any ?T then render_columns (render lib 0 27) ?T (fst ?A) else fst ?A)"
  proof (cases "?adj = []")
    case True
    with assms(1) A0 show ?thesis
      by (auto simp: prepare_datetime_def Let_def split: if_splits)
  next
    case False
    with assms(1) show ?thesis
      by (auto simp: prepare_datetime_def Let_def split: if_splits prod.splits)
  qed
  have a: "getcol (fst ?A) c
           = (if c \<in> set ?adj then map2 round_datetime (getcol d c) (getcol p c) else getcol p c)"
    by (rule assign_datetime_prepped [OF dadj])
  have r: "getcol (render_columns (render lib 0 27) ?T (fst ?A)) c
           = (if c \<in> set ?T then map (render lib 0 27) (getcol (fst ?A) c) else getcol (fst ?A) c)"
    by (rule render_columns_getcol [OF dT])
  have 2: "getcol p1 c
         = (if c \<in> set ?T \<and> py_any ?T
            then map (render lib 0 27)
                   (if list_ex datetime_adjust (getcol p c)
                    then map2 round_datetime (getcol d c) (getcol p c) else getcol p c)
            else getcol p c)"
    unfolding p1 using a r by (auto simp: datetime_adjusted_member)
  have 1: "getcol d1 c
         = (if c \<in> set ?T \<and> py_any ?T \<and> list_ex datetime_adjust (getcol p c)
            then map2 round_datetime (getcol d c) (getcol p c) else getcol d c)"
    using prepare_datetime_dataframe [OF assms, of c] by (simp add: datetime_adjusted_member)
  from 1 2 show ?thesis ..
qed

lemma prepare_datetime2_columns:
  assumes "prepare_datetime2 lib schema p d = (Inr (p1, d1), ws)" and "distinct (map fst schema)"
  shows "(if c \<in> set (columns_of_type [''datetime2''] schema)
             \<and> py_any (columns_of_type [''datetime2''] schema)
             \<and> list_ex timestamp_truncated (getcol p c)
          then those (map (round_timestamp lib False) (getcol d c)) = Some (getcol d1 c)
          else getcol d1 c = getcol d c)
       \<and> getcol p1 c
         = (if c \<in> set (columns_of_type [''datetime2''] schema)
               \<and> py_any (columns_of_type [''datetime2''] schema)
            then map (render lib 0 27)
                   (if list_ex timestamp_truncated (getcol p c) then getcol d1 c else getcol p c)
            else getcol p c)"
proof -
  let ?T = "columns_of_type [''datetime2''] schema"
  let ?tr = "datetime2_truncation schema p"
  have dT: "distinct ?T" using assms(2) by (rule distinct_columns_of_type)
  have dtr: "distinct ?tr"
    using assms(2)
    by (simp add: datetime2_truncation_def Let_def distinct_columns_with distinct_columns_of_type)
  have 1: "if c \<in> set ?T \<and> py_any ?T \<and> list_ex timestamp_truncated (getcol p c)
           then those (map (round_timestamp lib False) (getcol d c)) = Some (getcol d1 c)
           else getcol d1 c = getcol d c"
    using prepare_datetime2_dataframe [OF assms, of c] by (simp add: datetime2_truncation_member)
  obtain q where p1: "p1 = (if py_any ?T then render_columns (render lib 0 27) ?T q else q)"
    and q: "if c \<in> set ?tr then those (map (round_timestamp lib False) (getcol d c)) = Some (getcol q c)
            else getcol q c = getcol p c"
  proof (cases "?tr = []")
    case True
    with assms(1) have "p1 = (if py_any ?T then render_columns (render lib 0 27) ?T p else p)"
      by (auto simp: prepare_datetime2_def Let_def split: if_splits)
    with True that [of p] show ?thesis by simp
  next
    case False
    with assms(1) obtain p' where
      a: "assign_timestamps lib False ?tr (p, d) = Some (p', d1)"
      and "p1 = (if py_any ?T then render_columns (render lib 0 27) ?T p' else p')"
      by (auto simp: prepare_datetime2_def Let_def split: if_splits option.splits)
    with assign_timestamps_prepped [OF a dtr, of c] that [of p'] show ?thesis by simp
  qed
  have r: "getcol (render_columns (render lib 0 27) ?T q) c
           = (if c \<in> set ?T then map (render lib 0 27) (getcol q c) else getcol q c)"
    by (rule render_columns_getcol [OF dT])
  have 2: "getcol p1 c
         = (if c \<in> set ?T \<and> py_any ?T
            then map (render lib 0 27)
                   (if list_ex timestamp_truncated (getcol p c) then getcol d1 c else getcol p c)
            else getcol p c)"
    unfolding p1 using q r 1 by (auto simp: datetime2_truncation_member split: if_splits)
  from 1 2 show ?thesis ..
qed

lemma prepare_datetimeoffset_columns:
  assumes "prepare_datetimeoffset lib schema p d = (Inr (p1, d1), ws)"
    and "distinct (map fst schema)"
  shows "(if c \<in> set (columns_of_type [''datetimeoffset''] schema)
          then (if list_ex timestamp_truncated (map localize_utc (getcol d c))
                then those (map (round_timestamp lib True) (map localize_utc (getcol d c)))
                     = Some (getcol d1 c)
                else getcol d1 c = map localize_utc (getcol d c))
          else getcol d1 c = getcol d c)
       \<and> getcol p1 c
         = (if c \<in> set (columns_of_type [''datetimeoffset''] schema)
            then (if py_any (columns_of_type [''datetimeoffset''] schema)
                  then map (render_offset lib) (getcol d1 c) else getcol d1 c)
            else getcol p c)"
proof -
  let ?T = "columns_of_type [''datetimeoffset''] schema"
  let ?pd = "assign_localized ?T (p, d)"
  let ?tr = "datetimeoffset_truncation schema (fst ?pd)"
  have dT: "distinct ?T" using assms(2) by (rule distinct_columns_of_type)
  have dtr: "distinct ?tr"
    using dT by (simp add: datetimeoffset_truncation_def distinct_columns_with)
  have lp: "getcol (fst ?pd) c = (if c \<in> set ?T then map localize_utc (getcol d c) else getcol p c)"
    by (rule assign_localized_prepped [OF dT])
  have ld: "getcol (snd ?pd) c = (if c \<in> set ?T then map localize_utc (getcol d c) else getcol d c)"
    by (rule assign_localized_dataframe [OF dT])
  have mem: "c \<in> set ?tr \<longleftrightarrow> c \<in> set ?T \<and> list_ex timestamp_truncated (map localize_utc (getcol d c))"
    using lp by (auto simp: datetimeoffset_truncation_member)
  obtain q where p1: "p1 = (if py_any ?T then render_columns (render_offset lib) ?T q else q)"
    and q: "if c \<in> set ?tr
            then those (map (round_timestamp lib True) (getcol (snd ?pd) c)) = Some (getcol q c)
                 \<and> those (map (round_timestamp lib True) (getcol (snd ?pd) c)) = Some (getcol d1 c)
            else getcol q c = getcol (fst ?pd) c \<and> getcol d1 c = getcol (snd ?pd) c"
  proof (cases "?tr = []")
    case True
    with assms(1) have "p1 = (if py_any ?T then render_columns (render_offset lib) ?T (fst ?pd)
                              else fst ?pd)" and "d1 = snd ?pd"
      by (auto simp: prepare_datetimeoffset_def Let_def split: if_splits prod.splits)
    with True that [of "fst ?pd"] show ?thesis by simp
  next
    case False
    with assms(1) obtain p' where
      a: "assign_timestamps lib True ?tr (fst ?pd, snd ?pd) = Some (p', d1)"
      and "p1 = (if py_any ?T then render_columns (render_offset lib) ?T p' else p')"
      by (auto simp: prepare_datetimeoffset_def Let_def split: if_splits option.splits prod.splits)
    with assign_timestamps_prepped [OF a dtr, of c] assign_timestamps_dataframe [OF a dtr, of c]
      that [of p'] show ?thesis by (simp split: if_splits)
  qed
  have r: "getcol (render_columns (render_offset lib) ?T q) c
           = (if c \<in> set ?T then map (render_offset lib) (getcol q c) else getcol q c)"
    by (rule render_columns_getcol [OF dT])
  have 1: "if c \<in> set ?T
          then (if list_ex timestamp_truncated (map localize_utc (getcol d c))
                then those (map (round_timestamp lib True) (map localize_utc (getcol d c)))
                     = Some (getcol d1 c)
                else getcol d1 c = map localize_utc (getcol d c))
          else getcol d1 c = getcol d c"
    using q mem ld by (auto split: if_splits)
  have qd: "getcol q c = getcol d1 c" if "c \<in> set ?T"
    using q mem lp ld that by (auto split: if_splits)
  have qp: "getcol q c = getcol p c" if "c \<notin> set ?T"
    using q mem lp that by (auto split: if_splits)
  have 2: "getcol p1 c
         = (if c \<in> set ?T
            then (if py_any ?T then map (render_offset lib) (getcol d1 c) else getcol d1 c)
            else getcol p c)"
    unfolding p1 using r qd qp by auto
  from 1 2 show ?thesis ..
qed

lemma prepare_numeric_columns:
  assumes "prepare_numeric lib schema p d = (Inr (p1, d1), ws)" and "distinct (map fst schema)"
  shows "getcol d1 c
         = (if c \<in> set (columns_of_type [''numeric'', ''decimal''] schema)
            then map (\<lambda>x. if x \<noteq> NA
                           then py_round lib x (case map_of schema c of
                                                  Some r \<Rightarrow> decimal_digits r | None \<Rightarrow> 0)
                           else x) (replace_NA lib (getcol d c))
            else getcol d c)
       \<and> getcol p1 c
         = (if c \<in> set (columns_of_type [''numeric'', ''decimal''] schema)
            then getcol d1 c else getcol p c)"
proof -
  note 1 = prepare_numeric_dataframe [OF assms, of c]
  note 2 = numeric_loop_prepped [OF assms(1) [unfolded prepare_numeric_def]
             distinct_columns_of_type [OF assms(2)], of c]
  from 1 2 show ?thesis by simp
qed

lemma columns_of_type_disjoint:
  assumes "distinct (map fst schema)" and "c \<in> set (columns_of_type ts schema)"
    and "set ts \<inter> set us = {}"
  shows "c \<notin> set (columns_of_type us schema)"
proof
  assume "c \<in> set (columns_of_type us schema)"
  then obtain r' where 1: "(c, r') \<in> set schema" and 2: "sql_type r' \<in> set us"
    by (auto simp: columns_of_type_def)
  from assms(2) obtain r where 3: "(c, r) \<in> set schema" and 4: "sql_type r \<in> set ts"
    by (auto simp: columns_of_type_def)
  from assms(1) 1 3 have "r = r'" by (meson eq_key_imp_eq_value)
  with 2 4 assms(3) show False by auto
qed

lemma columns_of_type_subset:
  "c \<in> set (columns_of_type ts schema) \<Longrightarrow> set ts \<subseteq> set us
   \<Longrightarrow> c \<in> set (columns_of_type us schema)"
  by (auto simp: columns_of_type_def)

lemma and_then_Inr:
  "and_then r f = (Inr (p', d'), ws') \<Longrightarrow>
   \<exists>p d ws ws1. r = (Inr (p, d), ws) \<and> f p d = (Inr (p', d'), ws1) \<and> ws' = ws @ ws1"
  unfolding and_then_def by (auto split: prod.splits sum.splits)

lemma prepare_values_Inr:
  assumes "prepare_values lib schema df = (Inr (df1, vals), ws)"
  shows "\<exists>prepped frame1.
           and_then (and_then (and_then (and_then
             (prepare_time lib (restrict_schema schema (reset_index df))
                (reset_index df) (reset_index df))
             (prepare_datetime lib (restrict_schema schema (reset_index df))))
             (prepare_datetime2 lib (restrict_schema schema (reset_index df))))
             (prepare_datetimeoffset lib (restrict_schema schema (reset_index df))))
             (prepare_numeric lib (restrict_schema schema (reset_index df)))
           = (Inr (prepped, frame1), ws)
         \<and> df1 = (if py_any (index_names df)
                  then \<lparr> index = map (\<lambda>n. (n, getcol frame1 n)) (index_names df),
                         columns = filter (\<lambda>(c, vs). c \<notin> set (index_names df)) frame1 \<rparr>
                  else \<lparr> index = index df, columns = frame1 \<rparr>)
         \<and> vals = transpose (map snd prepped)"
proof -
  let ?chain = "and_then (and_then (and_then (and_then
             (prepare_time lib (restrict_schema schema (reset_index df))
                (reset_index df) (reset_index df))
             (prepare_datetime lib (restrict_schema schema (reset_index df))))
             (prepare_datetime2 lib (restrict_schema schema (reset_index df))))
             (prepare_datetimeoffset lib (restrict_schema schema (reset_index df))))
             (prepare_numeric lib (restrict_schema schema (reset_index df)))"
  obtain r w where c: "?chain = (r, w)" by (cases ?chain)
  show ?thesis
  proof (cases r)
    case (Inl e)
    with assms c show ?thesis
      by (simp add: prepare_values_def Let_def split: if_splits)
  next
    case (Inr pd)
    obtain prepped frame1 where "pd = (prepped, frame1)" by (cases pd)
    with assms c Inr show ?thesis
      by (simp add: prepare_values_def Let_def split: if_splits)
  qed
qed

text \<open>
  C3, as stated, fails: the adjustment of a time column alters the caller-visible
  dataframe. A dataframe with the time value of 90 nanoseconds comes back from
  \<open>prepare_values\<close> with the value of 100 nanoseconds.
\<close>

theorem time_rounding_alters_dataframe:
  "returned_dataframe
     (prepare_values plain_library [(''t'', row_of_type ''time'')]
        \<lparr> index = [], columns = [(''t'', [Timedelta 90])] \<rparr>)
   = Some \<lparr> index = [], columns = [(''t'', [Timedelta 100])] \<rparr>
   \<and> Timedelta 100 \<noteq> Timedelta 90"
  by code_simp

text \<open>
  C3, amended. Let \<open>prepare_values\<close> return for a schema with distinct column names.
  The dataframe it returns is built from the frame that the five precision rules leave,
  and the values it returns are the rows of the prepared copy. In that frame a time,
  datetime, datetime2 or datetimeoffset column in which the rule of its type detects a
  loss of precision holds the rounded values, a datetimeoffset column is localized to UTC,
  and a numeric or decimal column holds its rounded values: the adjusted values are
  written to the caller-visible dataframe. The prepared copy holds the same adjusted
  values, rendered as text in the columns of the four temporal types. Every other column
  is the same in the frame, in the prepared copy and in the dataframe that was passed.
\<close>

theorem precision_rules_alter_dataframe:
  fixes df :: DataFrame and schema :: schema
  defines "frame0 \<equiv> reset_index df"
  defines "schema1 \<equiv> restrict_schema schema (reset_index df)"
  assumes dist: "distinct (map fst schema)"
    and run: "prepare_values lib schema df = (Inr (df1, vals), ws)"
  shows "\<exists>prepped frame1.
           df1 = (if py_any (index_names df)
                  then \<lparr> index = map (\<lambda>n. (n, getcol frame1 n)) (index_names df),
                         columns = filter (\<lambda>(c, vs). c \<notin> set (index_names df)) frame1 \<rparr>
                  else \<lparr> index = index df, columns = frame1 \<rparr>)
         \<and> vals = transpose (map snd prepped)
         \<and> (\<forall>c.
              (c \<in> set (columns_of_type [''time''] schema1) \<longrightarrow>
                 getcol frame1 c
                 = (if py_any (columns_of_type [''time''] schema1)
                       \<and> list_ex timedelta_truncated (getcol frame0 c)
                    then map round_timedelta (getcol frame0 c) else getcol frame0 c)
                 \<and> getcol prepped c
                   = (if py_any (columns_of_type [''time''] schema1)
                      then map (render lib 7 23) (getcol frame1 c) else getcol frame1 c))
            \<and> (c \<in> set (columns_of_type [''datetime''] schema1) \<longrightarrow>
                 getcol frame1 c
                 = (if py_any (columns_of_type [''datetime''] schema1)
                       \<and> list_ex datetime_adjust (getcol frame0 c)
                    then map2 round_datetime (getcol frame0 c) (getcol frame0 c)
                    else getcol frame0 c)
                 \<and> getcol prepped c
                   = (if py_any (columns_of_type [''datetime''] schema1)
                      then map (render lib 0 27) (getcol frame1 c) else getcol frame1 c))
            \<and> (c \<in> set (columns_of_type [''datetime2''] schema1) \<longrightarrow>
                 (if py_any (columns_of_type [''datetime2''] schema1)
                     \<and> list_ex timestamp_truncated (getcol frame0 c)
                  then those (map (round_timestamp lib False) (getcol frame0 c))
                       = Some (getcol frame1 c)
                  else getcol frame1 c = getcol frame0 c)
                 \<and> getcol prepped c
                   = (if py_any (columns_of_type [''datetime2''] schema1)
                      then map (render lib 0 27) (getcol frame1 c) else getcol frame1 c))
            \<and> (c \<in> set (columns_of_type [''datetimeoffset''] schema1) \<longrightarrow>
                 (if list_ex timestamp_truncated (map localize_utc (getcol frame0 c))
                  then those (map (round_timestamp lib True) (map localize_utc (getcol frame0 c)))
                       = Some (getcol frame1 c)
                  else getcol frame1 c = map localize_utc (getcol frame0 c))
                 \<and> getcol prepped c
                   = (if py_any (columns_of_type [''datetimeoffset''] schema1)
                      then map (render_offset lib) (getcol frame1 c) else getcol frame1 c))
            \<and> (c \<in> set (columns_of_type [''numeric'', ''decimal''] schema1) \<longrightarrow>
                 getcol frame1 c
                 = map (\<lambda>x. if x \<noteq> NA
                             then py_round lib x (case map_of schema1 c of
                                                    Some r \<Rightarrow> decimal_digits r | None \<Rightarrow> 0)
                             else x) (replace_NA lib (getcol frame0 c))
                 \<and> getcol prepped c = getcol frame1 c)
            \<and> (c \<notin> set (columns_of_type [''time'', ''datetime'', ''datetime2'', ''datetimeoffset'',
                                          ''numeric'', ''decimal''] schema1) \<longrightarrow>
                 getcol frame1 c = getcol frame0 c \<and> getcol prepped c = getcol frame0 c))"
proof -
  let ?Tt = "columns_of_type [''time''] schema1"
  let ?Td = "columns_of_type [''datetime''] schema1"
  let ?Te = "columns_of_type [''datetime2''] schema1"
  let ?To = "columns_of_type [''datetimeoffset''] schema1"
  let ?Tn = "columns_of_type [''numeric'', ''decimal''] schema1"
  let ?all = "columns_of_type [''time'', ''datetime'', ''datetime2'', ''datetimeoffset'',
                               ''numeric'', ''decimal''] schema1"
  have dS: "distinct (map fst schema1)"
    using dist unfolding schema1_def restrict_schema_def by (simp add: distinct_map_filter)
  from prepare_values_Inr [OF run] obtain prepped frame1 where
    chain: "and_then (and_then (and_then (and_then
             (prepare_time lib schema1 frame0 frame0)
             (prepare_datetime lib schema1))
             (prepare_datetime2 lib schema1))
             (prepare_datetimeoffset lib schema1))
             (prepare_numeric lib schema1)
           = (Inr (prepped, frame1), ws)"
    and df1: "df1 = (if py_any (index_names df)
                  then \<lparr> index = map (\<lambda>n. (n, getcol frame1 n)) (index_names df),
                         columns = filter (\<lambda>(c, vs). c \<notin> set (index_names df)) frame1 \<rparr>
                  else \<lparr> index = index df, columns = frame1 \<rparr>)"
    and vals: "vals = transpose (map snd prepped)"
    unfolding frame0_def schema1_def by blast
  from and_then_Inr [OF chain] obtain p4 d4 v4 v5 where
    c4: "and_then (and_then (and_then
             (prepare_time lib schema1 frame0 frame0)
             (prepare_datetime lib schema1))
             (prepare_datetime2 lib schema1))
             (prepare_datetimeoffset lib schema1) = (Inr (p4, d4), v4)"
    and r5: "prepare_numeric lib schema1 p4 d4 = (Inr (prepped, frame1), v5)" by blast
  from and_then_Inr [OF c4] obtain p3 d3 v3 u4 where
    c3: "and_then (and_then
             (prepare_time lib schema1 frame0 frame0)
             (prepare_datetime lib schema1))
             (prepare_datetime2 lib schema1) = (Inr (p3, d3), v3)"
    and r4: "prepare_datetimeoffset lib schema1 p3 d3 = (Inr (p4, d4), u4)" by blast
  from and_then_Inr [OF c3] obtain p2 d2 v2 u3 where
    c2: "and_then (prepare_time lib schema1 frame0 frame0) (prepare_datetime lib schema1)
         = (Inr (p2, d2), v2)"
    and r3: "prepare_datetime2 lib schema1 p2 d2 = (Inr (p3, d3), u3)" by blast
  from and_then_Inr [OF c2] obtain p1 d1 v1 u2 where
    r1: "prepare_time lib schema1 frame0 frame0 = (Inr (p1, d1), v1)"
    and r2: "prepare_datetime lib schema1 p1 d1 = (Inr (p2, d2), u2)" by blast
  note k1 = prepare_time_columns [OF r1 dS]
  note k2 = prepare_datetime_columns [OF r2 dS]
  note k3 = prepare_datetime2_columns [OF r3 dS]
  note k4 = prepare_datetimeoffset_columns [OF r4 dS]
  note k5 = prepare_numeric_columns [OF r5 dS]
  note dj = columns_of_type_disjoint [OF dS]
  have s1: "getcol d1 c = getcol frame0 c \<and> getcol p1 c = getcol frame0 c"
    if "c \<notin> set ?Tt" for c using k1 [of c] that by simp
  have s2: "getcol d2 c = getcol d1 c \<and> getcol p2 c = getcol p1 c"
    if "c \<notin> set ?Td" for c using k2 [of c] that by simp
  have s3: "getcol d3 c = getcol d2 c \<and> getcol p3 c = getcol p2 c"
    if "c \<notin> set ?Te" for c using k3 [of c] that by simp
  have s4: "getcol d4 c = getcol d3 c \<and> getcol p4 c = getcol p3 c"
    if "c \<notin> set ?To" for c using k4 [of c] that by simp
  have s5: "getcol frame1 c = getcol d4 c \<and> getcol prepped c = getcol p4 c"
    if "c \<notin> set ?Tn" for c using k5 [of c] that by simp
  have time: "getcol frame1 c
                 = (if py_any ?Tt \<and> list_ex timedelta_truncated (getcol frame0 c)
                    then map round_timedelta (getcol frame0 c) else getcol frame0 c)
                 \<and> getcol prepped c
                   = (if py_any ?Tt then map (render lib 7 23) (getcol frame1 c)
                      else getcol frame1 c)"
    if m: "c \<in> set ?Tt" for c
  proof -
    from dj [OF m] have n: "c \<notin> set ?Td" "c \<notin> set ?Te" "c \<notin> set ?To" "c \<notin> set ?Tn"
      by simp_all
    from s2 [OF n(1)] s3 [OF n(2)] s4 [OF n(3)] s5 [OF n(4)]
    have e: "getcol frame1 c = getcol d1 c" "getcol prepped c = getcol p1 c" by simp_all
    from k1 [of c] m show ?thesis unfolding e by simp
  qed
  have datetime: "getcol frame1 c
                 = (if py_any ?Td \<and> list_ex datetime_adjust (getcol frame0 c)
                    then map2 round_datetime (getcol frame0 c) (getcol frame0 c)
                    else getcol frame0 c)
                 \<and> getcol prepped c
                   = (if py_any ?Td then map (render lib 0 27) (getcol frame1 c)
                      else getcol frame1 c)"
    if m: "c \<in> set ?Td" for c
  proof -
    from dj [OF m] have n: "c \<notin> set ?Tt" "c \<notin> set ?Te" "c \<notin> set ?To" "c \<notin> set ?Tn"
      by simp_all
    from s3 [OF n(2)] s4 [OF n(3)] s5 [OF n(4)]
    have e: "getcol frame1 c = getcol d2 c" "getcol prepped c = getcol p2 c" by simp_all
    from k2 [of c] m s1 [OF n(1)] show ?thesis unfolding e by simp
  qed
  have datetime2: "(if py_any ?Te \<and> list_ex timestamp_truncated (getcol frame0 c)
                  then those (map (round_timestamp lib False) (getcol frame0 c))
                       = Some (getcol frame1 c)
                  else getcol frame1 c = getcol frame0 c)
                 \<and> getcol prepped c
                   = (if py_any ?Te then map (render lib 0 27) (getcol frame1 c)
                      else getcol frame1 c)"
    if m: "c \<in> set ?Te" for c
  proof -
    from dj [OF m] have n: "c \<notin> set ?Tt" "c \<notin> set ?Td" "c \<notin> set ?To" "c \<notin> set ?Tn"
      by simp_all
    from s4 [OF n(3)] s5 [OF n(4)]
    have e: "getcol frame1 c = getcol d3 c" "getcol prepped c = getcol p3 c" by simp_all
    from s1 [OF n(1)] s2 [OF n(2)]
    have b: "getcol d2 c = getcol frame0 c" "getcol p2 c = getcol frame0 c" by simp_all
    from k3 [of c] m show ?thesis unfolding e b by (simp split: if_splits)
  qed
  have datetimeoffset: "(if list_ex timestamp_truncated (map localize_utc (getcol frame0 c))
                  then those (map (round_timestamp lib True) (map localize_utc (getcol frame0 c)))
                       = Some (getcol frame1 c)
                  else getcol frame1 c = map localize_utc (getcol frame0 c))
                 \<and> getcol prepped c
                   = (if py_any ?To then map (render_offset lib) (getcol frame1 c)
                      else getcol frame1 c)"
    if m: "c \<in> set ?To" for c
  proof -
    from dj [OF m] have n: "c \<notin> set ?Tt" "c \<notin> set ?Td" "c \<notin> set ?Te" "c \<notin> set ?Tn"
      by simp_all
    from s5 [OF n(4)]
    have e: "getcol frame1 c = getcol d4 c" "getcol prepped c = getcol p4 c" by simp_all
    from s1 [OF n(1)] s2 [OF n(2)] s3 [OF n(3)]
    have b: "getcol d3 c = getcol frame0 c" "getcol p3 c = getcol frame0 c" by simp_all
    from k4 [of c] m show ?thesis unfolding e b by (simp split: if_splits)
  qed
  have numeric: "getcol frame1 c
                 = map (\<lambda>x. if x \<noteq> NA
                             then py_round lib x (case map_of schema1 c of
                                                    Some r \<Rightarrow> decimal_digits r | None \<Rightarrow> 0)
                             else x) (replace_NA lib (getcol frame0 c))
                 \<and> getcol prepped c = getcol frame1 c"
    if m: "c \<in> set ?Tn" for c
  proof -
    from dj [OF m] have n: "c \<notin> set ?Tt" "c \<notin> set ?Td" "c \<notin> set ?Te" "c \<notin> set ?To"
      by simp_all
    from s1 [OF n(1)] s2 [OF n(2)] s3 [OF n(3)] s4 [OF n(4)]
    have b: "getcol d4 c = getcol frame0 c" "getcol p4 c = getcol frame0 c" by simp_all
    from k5 [of c] m show ?thesis unfolding b by simp
  qed
  have other: "getcol frame1 c = getcol frame0 c \<and> getcol prepped c = getcol frame0 c"
    if m: "c \<notin> set ?all" for c
  proof -
    have n: "c \<notin> set ?Tt" "c \<notin> set ?Td" "c \<notin> set ?Te" "c \<notin> set ?To" "c \<notin> set ?Tn"
      using m columns_of_type_subset [of c _ schema1
           "[''time'', ''datetime'', ''datetime2'', ''datetimeoffset'', ''numeric'', ''decimal'']"]
      by fastforce+
    from s1 [OF n(1)] s2 [OF n(2)] s3 [OF n(3)] s4 [OF n(4)] s5 [OF n(5)]
    show ?thesis by simp
  qed
  show ?thesis
  proof (rule exI [of _ prepped], rule exI [of _ frame1], intro conjI allI)
    show "df1 = (if py_any (index_names df)
                  then \<lparr> index = map (\<lambda>n. (n, getcol frame1 n)) (index_names df),
                         columns = filter (\<lambda>(c, vs). c \<notin> set (index_names df)) frame1 \<rparr>
                  else \<lparr> index = index df, columns = frame1 \<rparr>)" by (rule df1)
  next
    show "vals = transpose (map snd prepped)" by (rule vals)
  qed (use time datetime datetime2 datetimeoffset numeric other in blast)+
qed

theorem precision_rules_alter_dataframe_witness:
  "distinct (map fst example_schema)
   \<and> prepare_values plain_library example_schema example_dataframe
     = (Inr (\<lparr> index = [(''k'', [Number 7])],
               columns = [(''t'', [Timedelta 100]), (''d'', [Timestamp 7000000 None]),
                          (''e'', [Timestamp 100 None]), (''o'', [Timestamp 200 (Some 0)]),
                          (''n'', [Number 2])] \<rparr>,
             [[Number 7, Str [], Str [], Str [], Str [], Number 2]]),
        [Warning_time [''t''], Warning_datetime [''d''], Warning_datetime2 [''e''],
         Warning_datetimeoffset [''o''], Warning_numeric ''n'' 0])
   \<and> (\<exists>prepped frame1.
         [[Number 7, Str [], Str [], Str [], Str [], Number 2]] = transpose (map snd prepped)
       \<and> getcol frame1 ''t'' = [Timedelta 100]
       \<and> getcol prepped ''t'' = [render plain_library 7 23 (Timedelta 100)]
       \<and> getcol frame1 ''d'' = [Timestamp 7000000 None]
       \<and> getcol prepped ''d'' = [render plain_library 0 27 (Timestamp 7000000 None)]
       \<and> getcol frame1 ''e'' = [Timestamp 100 None]
       \<and> getcol prepped ''e'' = [render plain_library 0 27 (Timestamp 100 None)]
       \<and> getcol frame1 ''o'' = [Timestamp 200 (Some 0)]
       \<and> getcol prepped ''o'' = [render_offset plain_library (Timestamp 200 (Some 0))]
       \<and> getcol frame1 ''n'' = [Number 2]
       \<and> getcol prepped ''n'' = [Number 2]
       \<and> getcol frame1 ''k'' = [Number 7]
       \<and> getcol prepped ''k'' = [Number 7])"
proof -
  let ?S = example_schema and ?L = plain_library
  let ?F = "(''k'', [Number 7]) # example_frame"
  let ?D = "\<lparr> index = [(''k'', [Number 7])],
               columns = [(''t'', [Timedelta 100]), (''d'', [Timestamp 7000000 None]),
                          (''e'', [Timestamp 100 None]), (''o'', [Timestamp 200 (Some 0)]),
                          (''n'', [Number 2])] \<rparr>"
  let ?V = "[[Number 7, Str [], Str [], Str [], Str [], Number 2]]"
  let ?W = "[Warning_time [''t''], Warning_datetime [''d''], Warning_datetime2 [''e''],
             Warning_datetimeoffset [''o''], Warning_numeric ''n'' 0]"
  have d: "distinct (map fst ?S)" by code_simp
  have run: "prepare_values ?L ?S example_dataframe = (Inr (?D, ?V), ?W)" by code_simp
  have F: "reset_index example_dataframe = ?F" by code_simp
  have S: "restrict_schema ?S ?F = ?S" by code_simp
  from precision_rules_alter_dataframe [OF d run, unfolded F S]
  obtain prepped frame1 where
    vals: "?V = transpose (map snd prepped)"
    and cols: "\<forall>c.
              (c \<in> set (columns_of_type [''time''] ?S) \<longrightarrow>
                 getcol frame1 c
                 = (if py_any (columns_of_type [''time''] ?S)
                       \<and> list_ex timedelta_truncated (getcol ?F c)
                    then map round_timedelta (getcol ?F c) else getcol ?F c)
                 \<and> getcol prepped c
                   = (if py_any (columns_of_type [''time''] ?S)
                      then map (render ?L 7 23) (getcol frame1 c) else getcol frame1 c))
            \<and> (c \<in> set (columns_of_type [''datetime''] ?S) \<longrightarrow>
                 getcol frame1 c
                 = (if py_any (columns_of_type [''datetime''] ?S)
                       \<and> list_ex datetime_adjust (getcol ?F c)
                    then map2 round_datetime (getcol ?F c) (getcol ?F c)
                    else getcol ?F c)
                 \<and> getcol prepped c
                   = (if py_any (columns_of_type [''datetime''] ?S)
                      then map (render ?L 0 27) (getcol frame1 c) else getcol frame1 c))
            \<and> (c \<in> set (columns_of_type [''datetime2''] ?S) \<longrightarrow>
                 (if py_any (columns_of_type [''datetime2''] ?S)
                     \<and> list_ex timestamp_truncated (getcol ?F c)
                  then those (map (round_timestamp ?L False) (getcol ?F c))
                       = Some (getcol frame1 c)
                  else getcol frame1 c = getcol ?F c)
                 \<and> getcol prepped c
                   = (if py_any (columns_of_type [''datetime2''] ?S)
                      then map (render ?L 0 27) (getcol frame1 c) else getcol frame1 c))
            \<and> (c \<in> set (columns_of_type [''datetimeoffset''] ?S) \<longrightarrow>
                 (if list_ex timestamp_truncated (map localize_utc (getcol ?F c))
                  then those (map (round_timestamp ?L True) (map localize_utc (getcol ?F c)))
                       = Some (getcol frame1 c)
                  else getcol frame1 c = map localize_utc (getcol ?F c))
                 \<and> getcol prepped c
                   = (if py_any (columns_of_type [''datetimeoffset''] ?S)
                      then map (render_offset ?L) (getcol frame1 c) else getcol frame1 c))
            \<and> (c \<in> set (columns_of_type [''numeric'', ''decimal''] ?S) \<longrightarrow>
                 getcol frame1 c
                 = map (\<lambda>x. if x \<noteq> NA
                             then py_round ?L x (case map_of ?S c of
                                                    Some r \<Rightarrow> decimal_digits r | None \<Rightarrow> 0)
                             else x) (replace_NA ?L (getcol ?F c))
                 \<and> getcol prepped c = getcol frame1 c)
            \<and> (c \<notin> set (columns_of_type [''time'', ''datetime'', ''datetime2'', ''datetimeoffset'',
                                          ''numeric'', ''decimal''] ?S) \<longrightarrow>
                 getcol frame1 c = getcol ?F c \<and> getcol prepped c = getcol ?F c)"
    by blast
  have t: "''t'' \<in> set (columns_of_type [''time''] ?S)"
    "py_any (columns_of_type [''time''] ?S)"
    "list_ex timedelta_truncated (getcol ?F ''t'')"
    "map round_timedelta (getcol ?F ''t'') = [Timedelta 100]"
    by code_simp+
  have dd: "''d'' \<in> set (columns_of_type [''datetime''] ?S)"
    "py_any (columns_of_type [''datetime''] ?S)"
    "list_ex datetime_adjust (getcol ?F ''d'')"
    "map2 round_datetime (getcol ?F ''d'') (getcol ?F ''d'') = [Timestamp 7000000 None]"
    by code_simp+
  have e: "''e'' \<in> set (columns_of_type [''datetime2''] ?S)"
    "py_any (columns_of_type [''datetime2''] ?S)"
    "list_ex timestamp_truncated (getcol ?F ''e'')"
    "those (map (round_timestamp ?L False) (getcol ?F ''e'')) = Some [Timestamp 100 None]"
    by code_simp+
  have o: "''o'' \<in> set (columns_of_type [''datetimeoffset''] ?S)"
    "py_any (columns_of_type [''datetimeoffset''] ?S)"
    "list_ex timestamp_truncated (map localize_utc (getcol ?F ''o''))"
    "those (map (round_timestamp ?L True) (map localize_utc (getcol ?F ''o'')))
     = Some [Timestamp 200 (Some 0)]"
    by code_simp+
  have n: "''n'' \<in> set (columns_of_type [''numeric'', ''decimal''] ?S)"
    "map (\<lambda>x. if x \<noteq> NA
               then py_round ?L x (case map_of ?S ''n'' of
                                     Some r \<Rightarrow> decimal_digits r | None \<Rightarrow> 0)
               else x) (replace_NA ?L (getcol ?F ''n'')) = [Number 2]"
    by code_simp+
  have k: "''k'' \<notin> set (columns_of_type [''time'', ''datetime'', ''datetime2'', ''datetimeoffset'',
                                          ''numeric'', ''decimal''] ?S)"
    "getcol ?F ''k'' = [Number 7]"
    by code_simp+
  from cols [THEN spec, of "''t''"] t
  have rt: "getcol frame1 ''t'' = [Timedelta 100]
            \<and> getcol prepped ''t'' = [render ?L 7 23 (Timedelta 100)]" by simp
  from cols [THEN spec, of "''d''"] dd
  have rd: "getcol frame1 ''d'' = [Timestamp 7000000 None]
            \<and> getcol prepped ''d'' = [render ?L 0 27 (Timestamp 7000000 None)]" by simp
  from cols [THEN spec, of "''e''"] e
  have re1: "getcol frame1 ''e'' = [Timestamp 100 None]" by simp
  from cols [THEN spec, of "''e''"] e re1
  have re: "getcol frame1 ''e'' = [Timestamp 100 None]
            \<and> getcol prepped ''e'' = [render ?L 0 27 (Timestamp 100 None)]" by simp
  from cols [THEN spec, of "''o''"] o
  have ro1: "getcol frame1 ''o'' = [Timestamp 200 (Some 0)]" by simp
  from cols [THEN spec, of "''o''"] o ro1
  have ro: "getcol frame1 ''o'' = [Timestamp 200 (Some 0)]
            \<and> getcol prepped ''o'' = [render_offset ?L (Timestamp 200 (Some 0))]" by simp
  from cols [THEN spec, of "''n''"] n
  have rn: "getcol frame1 ''n'' = [Number 2] \<and> getcol prepped ''n'' = [Number 2]" by simp
  from cols [THEN spec, of "''k''"] k
  have rk: "getcol frame1 ''k'' = [Number 7] \<and> getcol prepped ''k'' = [Number 7]" by simp
  from vals rt rd re ro rn rk
  have "\<exists>prepped frame1.
         ?V = transpose (map snd prepped)
       \<and> getcol frame1 ''t'' = [Timedelta 100]
       \<and> getcol prepped ''t'' = [render ?L 7 23 (Timedelta 100)]
       \<and> getcol frame1 ''d'' = [Timestamp 7000000 None]
       \<and> getcol prepped ''d'' = [render ?L 0 27 (Timestamp 7000000 None)]
       \<and> getcol frame1 ''e'' = [Timestamp 100 None]
       \<and> getcol prepped ''e'' = [render ?L 0 27 (Timestamp 100 None)]
       \<and> getcol frame1 ''o'' = [Timestamp 200 (Some 0)]
       \<and> getcol prepped ''o'' = [render_offset ?L (Timestamp 200 (Some 0))]
       \<and> getcol frame1 ''n'' = [Number 2]
       \<and> getcol prepped ''n'' = [Number 2]
       \<and> getcol frame1 ''k'' = [Number 7]
       \<and> getcol prepped ''k'' = [Number 7]"
    by blast
  with d run show ?thesis by blast
qed

text \<open>
  C6. The rounding of a datetime column is triggered by a value whose microseconds are
  not a multiple of 3000, not by a value whose thousandths are outside 0, 3 and 7. A column
  holding only 00:00:00.006 is returned as it came, with no warning; in a column that is
  adjusted, the same value becomes 00:00:00.007.
\<close>

theorem datetime_006_not_rounded:
  "prepare_datetime lib [(''d'', row_of_type ''datetime'')]
     [(''d'', [Timestamp 6000000 None])] [(''d'', [Timestamp 6000000 None])]
   = (Inr ([(''d'', [render lib 0 27 (Timestamp 6000000 None)])],
           [(''d'', [Timestamp 6000000 None])]), [])
   \<and> prepare_datetime lib [(''d'', row_of_type ''datetime'')]
       [(''d'', [Timestamp 6000000 None, Timestamp 1000000 None])]
       [(''d'', [Timestamp 6000000 None, Timestamp 1000000 None])]
     = (Inr ([(''d'', [render lib 0 27 (Timestamp 7000000 None), render lib 0 27 (Timestamp 0 None)])],
             [(''d'', [Timestamp 7000000 None, Timestamp 0 None])]), [Warning_datetime [''d'']])"
  by (simp add: prepare_datetime_def datetime_adjusted_def columns_of_type_def row_of_type_def
        py_any_def has_columns_def all_cells_def getcol_def is_timestamp_def columns_with_def
        datetime_adjust_def microsecond_def render_columns_def assign_datetime_def
        round_datetime_def increments_def Let_def)

text \<open>
  C7. The rounded time is rebuilt from the components of the value without its
  milliseconds. In a column that is rounded, 00:00:00.001000090 becomes 00:00:00.0000001
  and not 00:00:00.0010001, and the aligned value 00:00:00.001 next to 00:00:00.00000009
  becomes 00:00:00.
\<close>

theorem time_rounding_drops_milliseconds:
  "prepare_time lib [(''t'', row_of_type ''time'')]
     [(''t'', [Timedelta 1000090])] [(''t'', [Timedelta 1000090])]
   = (Inr ([(''t'', [render lib 7 23 (Timedelta 100)])], [(''t'', [Timedelta 100])]),
      [Warning_time [''t'']])
   \<and> prepare_time lib [(''t'', row_of_type ''time'')]
       [(''t'', [Timedelta 1000000, Timedelta 90])] [(''t'', [Timedelta 1000000, Timedelta 90])]
     = (Inr ([(''t'', [render lib 7 23 (Timedelta 0), render lib 7 23 (Timedelta 100)])],
             [(''t'', [Timedelta 0, Timedelta 100])]),
        [Warning_time [''t'']])"
  by (simp add: prepare_time_def time_truncation_def columns_of_type_def row_of_type_def
        py_any_def has_columns_def all_cells_def getcol_def is_timedelta_def columns_with_def
        time_out_of_range_def timedelta_truncated_def day_ns_def render_columns_def
        assign_rounded_def round_timedelta_def round_div_100_def Let_def)

lemma has_columns_restrict_schema:
  "has_columns f (columns_of_type ts (restrict_schema schema f))"
  unfolding has_columns_def columns_of_type_def restrict_schema_def list_all_iff
  by (auto simp: map_of_eq_None_iff)

lemma columns_with_nonempty:
  "c \<in> set cs \<Longrightarrow> v \<in> set (getcol f c) \<Longrightarrow> P v \<Longrightarrow> c \<in> set (columns_with P f cs)"
  by (auto simp: columns_with_def list_ex_iff)

lemma columns_with_empty:
  "(\<And>c v. c \<in> set cs \<Longrightarrow> v \<in> set (getcol f c) \<Longrightarrow> \<not> P v) \<Longrightarrow> columns_with P f cs = []"
  by (auto simp: columns_with_def list_ex_iff filter_empty_conv)

lemma prepare_time_range_error:
  assumes "has_columns prepped (columns_of_type [''time''] schema)"
    and "all_cells is_timedelta prepped (columns_of_type [''time''] schema)"
    and "columns_with time_out_of_range prepped (columns_of_type [''time''] schema) \<noteq> []"
  shows "prepare_time lib schema prepped dataframe
         = (Inl (ValueError_time_out_of_range
                   (columns_with time_out_of_range prepped (columns_of_type [''time''] schema))), [])"
  using assms by (simp add: prepare_time_def Let_def)

lemma prepare_time_no_range_error:
  assumes "columns_with time_out_of_range prepped (columns_of_type [''time''] schema) = []"
  shows "fst (prepare_time lib schema prepped dataframe) \<noteq> Inl (ValueError_time_out_of_range cs)"
  using assms by (simp add: prepare_time_def Let_def split: prod.splits)

lemma and_then_Inl: "and_then (Inl e, ws) f = (Inl e, ws)"
  by (simp add: and_then_def)

lemma prepare_values_time_error:
  assumes "\<not> (py_any (index_names df) \<and> list_ex (\<lambda>n. n \<in> set (column_names df)) (index_names df))"
    and "prepare_time lib (restrict_schema schema (reset_index df)) (reset_index df) (reset_index df)
         = (Inl e, ws)"
  shows "prepare_values lib schema df = (Inl e, ws)"
  using assms by (auto simp add: prepare_values_def Let_def and_then_Inl)

lemma insert_values_prepare_error:
  assumes "escape cursor table_name = (Inr table, c1)"
    and "escape_all c1 (if py_any (index_names df) then index_names df @ column_names df
                        else column_names df) = (Inr cols1, c2)"
    and "prepare_values lib schema df = (Inl e, ws)"
  shows "insert_values lib escape escape_all table_name df ts schema cursor = ((Inl e, c2), ws)"
  using assms by (simp add: insert_values_def Let_def)

text \<open>
  C8. Let the time columns of a dataframe hold timedelta values, and let none of its index
  levels have the name of a column. If a time column holds a value of one day or more, or
  a negative one, then \<open>prepare_time\<close> and with it \<open>prepare_values\<close> fail with the
  out-of-range error, and \<open>insert_values\<close> returns that error with the cursor as the
  escaping of the names left it: no statement has been executed for the insert. If every
  value of the time columns lies from 00:00:00 to 23:59:59.999999999, the check passes.
\<close>

theorem time_out_of_range_rejected:
  fixes df :: DataFrame and schema :: schema
  defines "f \<equiv> reset_index df"
  defines "tcols \<equiv> columns_of_type [''time''] (restrict_schema schema (reset_index df))"
  assumes typed: "all_cells is_timedelta f tcols"
    and noclash: "\<not> (py_any (index_names df)
                      \<and> list_ex (\<lambda>n. n \<in> set (column_names df)) (index_names df))"
    and esc: "escape cursor table_name = (Inr table, c1)"
    and esc_all: "escape_all c1 (if py_any (index_names df) then index_names df @ column_names df
                                 else column_names df) = (Inr cols1, c2)"
  shows "((\<exists>c \<in> set tcols. \<exists>t. Timedelta t \<in> set (getcol f c) \<and> (86400000000000 \<le> t \<or> t < 0)) \<longrightarrow>
            (\<exists>cs. prepare_time lib (restrict_schema schema f) f f
                        = (Inl (ValueError_time_out_of_range cs), [])
                   \<and> prepare_values lib schema df = (Inl (ValueError_time_out_of_range cs), [])
                   \<and> insert_values lib escape escape_all table_name df ts schema cursor
                        = ((Inl (ValueError_time_out_of_range cs), c2), [])))
       \<and> ((\<forall>c \<in> set tcols. \<forall>t. Timedelta t \<in> set (getcol f c) \<longrightarrow> 0 \<le> t \<and> t \<le> 86399999999999) \<longrightarrow>
            (\<forall>cs. fst (prepare_time lib (restrict_schema schema f) f f)
                       \<noteq> Inl (ValueError_time_out_of_range cs)))"
proof (intro conjI impI)
  assume "\<exists>c \<in> set tcols. \<exists>t. Timedelta t \<in> set (getcol f c) \<and> (86400000000000 \<le> t \<or> t < 0)"
  then obtain c t where c: "c \<in> set tcols" and t: "Timedelta t \<in> set (getcol f c)"
    and r: "86400000000000 \<le> t \<or> t < 0" by blast
  from r have "time_out_of_range (Timedelta t)" by (simp add: time_out_of_range_def day_ns_def)
  with c t have ne: "columns_with time_out_of_range f tcols \<noteq> []"
    using columns_with_nonempty [of c tcols "Timedelta t" f time_out_of_range] by auto
  let ?cs = "columns_with time_out_of_range f tcols"
  have hc: "has_columns f (columns_of_type [''time''] (restrict_schema schema f))"
    by (rule has_columns_restrict_schema)
  have 1: "prepare_time lib (restrict_schema schema f) f f = (Inl (ValueError_time_out_of_range ?cs), [])"
    using prepare_time_range_error [OF hc] typed ne unfolding tcols_def f_def by simp
  have 2: "prepare_values lib schema df = (Inl (ValueError_time_out_of_range ?cs), [])"
    using prepare_values_time_error [OF noclash] 1 unfolding f_def by simp
  have 3: "insert_values lib escape escape_all table_name df ts schema cursor
             = ((Inl (ValueError_time_out_of_range ?cs), c2), [])"
    using insert_values_prepare_error
            [of escape cursor table_name table c1 escape_all df cols1 c2 lib schema]
      esc esc_all 2 by simp
  from 1 2 3 show "\<exists>cs. prepare_time lib (restrict_schema schema f) f f
                        = (Inl (ValueError_time_out_of_range cs), [])
                   \<and> prepare_values lib schema df = (Inl (ValueError_time_out_of_range cs), [])
                   \<and> insert_values lib escape escape_all table_name df ts schema cursor
                        = ((Inl (ValueError_time_out_of_range cs), c2), [])"
    by blast
next
  assume a: "\<forall>c \<in> set tcols. \<forall>t. Timedelta t \<in> set (getcol f c) \<longrightarrow> 0 \<le> t \<and> t \<le> 86399999999999"
  have "columns_with time_out_of_range f tcols = []"
  proof (rule columns_with_empty)
    fix c v assume "c \<in> set tcols" "v \<in> set (getcol f c)"
    with a show "\<not> time_out_of_range v"
      by (cases v) (fastforce simp: time_out_of_range_def day_ns_def)+
  qed
  then show "\<forall>cs. fst (prepare_time lib (restrict_schema schema f) f f)
                       \<noteq> Inl (ValueError_time_out_of_range cs)"
    using prepare_time_no_range_error unfolding tcols_def f_def by blast
qed

theorem time_out_of_range_rejected_witness:
  "all_cells is_timedelta
     (reset_index \<lparr> index = [], columns = [(''t'', [Timedelta 86400000000000, Timedelta (- 1000000000)])] \<rparr>)
     (columns_of_type [''time'']
        (restrict_schema [(''t'', row_of_type ''time'')]
           (reset_index \<lparr> index = [], columns = [(''t'', [Timedelta 86400000000000, Timedelta (- 1000000000)])] \<rparr>)))
   \<and> (\<exists>cs. insert_values plain_library (\<lambda>c n. (Inr n, c)) (\<lambda>c ns. (Inr ns, c)) ''T''
              \<lparr> index = [], columns = [(''t'', [Timedelta 86400000000000, Timedelta (- 1000000000)])] \<rparr>
              False [(''t'', row_of_type ''time'')] []
            = ((Inl (ValueError_time_out_of_range cs), []), []))
   \<and> insert_values plain_library (\<lambda>c n. (Inr n, c)) (\<lambda>c ns. (Inr ns, c)) ''T''
        \<lparr> index = [], columns = [(''t'', [Timedelta 86400000000000, Timedelta (- 1000000000)])] \<rparr>
        False [(''t'', row_of_type ''time'')] []
      = ((Inl (ValueError_time_out_of_range [''t'']), []), [])
   \<and> (\<forall>cs. fst (prepare_time plain_library
                   (restrict_schema [(''t'', row_of_type ''time'')]
                      (reset_index \<lparr> index = [], columns = [(''t'', [Timedelta 86399999999900])] \<rparr>))
                   (reset_index \<lparr> index = [], columns = [(''t'', [Timedelta 86399999999900])] \<rparr>)
                   (reset_index \<lparr> index = [], columns = [(''t'', [Timedelta 86399999999900])] \<rparr>))
             \<noteq> Inl (ValueError_time_out_of_range cs))"
proof -
  let ?S = "[(''t'', row_of_type ''time'')]"
  let ?D = "\<lparr> index = [], columns = [(''t'', [Timedelta 86400000000000, Timedelta (- 1000000000)])] \<rparr>"
  let ?G = "\<lparr> index = [], columns = [(''t'', [Timedelta 86399999999900])] \<rparr>"
  let ?E = "\<lambda>(c::action list) (n::string). (Inr n :: error + string, c)"
  let ?EA = "\<lambda>(c::action list) (ns::string list). (Inr ns :: error + string list, c)"
  have dt: "columns_of_type [''time''] (restrict_schema ?S (reset_index ?D)) = [''t'']"
    by code_simp
  have gt: "columns_of_type [''time''] (restrict_schema ?S (reset_index ?G)) = [''t'']"
    by code_simp
  have gd: "getcol (reset_index ?D) ''t'' = [Timedelta 86400000000000, Timedelta (- 1000000000)]"
    by code_simp
  have gg: "getcol (reset_index ?G) ''t'' = [Timedelta 86399999999900]"
    by code_simp
  have h1: "all_cells is_timedelta (reset_index ?D)
              (columns_of_type [''time''] (restrict_schema ?S (reset_index ?D)))"
    by code_simp
  have g1: "all_cells is_timedelta (reset_index ?G)
              (columns_of_type [''time''] (restrict_schema ?S (reset_index ?G)))"
    by code_simp
  have h2: "\<not> (py_any (index_names ?D) \<and> list_ex (\<lambda>n. n \<in> set (column_names ?D)) (index_names ?D))"
    by (simp add: index_names_def py_any_def)
  have g2: "\<not> (py_any (index_names ?G) \<and> list_ex (\<lambda>n. n \<in> set (column_names ?G)) (index_names ?G))"
    by (simp add: index_names_def py_any_def)
  have ev: "insert_values plain_library ?E ?EA ''T'' ?D False ?S []
            = ((Inl (ValueError_time_out_of_range [''t'']), []), [])"
    by code_simp
  have ok: "\<forall>cs. fst (prepare_time plain_library (restrict_schema ?S (reset_index ?G))
                       (reset_index ?G) (reset_index ?G))
                  \<noteq> Inl (ValueError_time_out_of_range cs)"
    using time_out_of_range_rejected
            [where df = ?G and schema = ?S and escape = ?E and escape_all = ?EA
               and cursor = "[]" and table_name = "''T''" and table = "''T''" and ?c1.0 = "[]"
               and ?c2.0 = "[]" and ?cols1.0 = "[''t'']" and lib = plain_library, OF g1 g2]
    by (simp add: gt gg index_names_def column_names_def py_any_def)
  have esc1: "?E [] ''T'' = (Inr ''T'', [])" by simp
  have esc2: "?EA [] (if py_any (index_names ?D) then index_names ?D @ column_names ?D
                      else column_names ?D) = (Inr [''t''], [])"
    by (simp add: index_names_def column_names_def py_any_def)
  have "Timedelta 86400000000000 \<in> set (getcol (reset_index ?D) ''t'')"
    by (simp add: gd)
  then have ante: "\<exists>c \<in> set (columns_of_type [''time''] (restrict_schema ?S (reset_index ?D))).
                     \<exists>t. Timedelta t \<in> set (getcol (reset_index ?D) c)
                         \<and> (86400000000000 \<le> t \<or> t < 0)"
    unfolding dt by auto
  have ex: "\<exists>cs. insert_values plain_library ?E ?EA ''T'' ?D False ?S []
                  = ((Inl (ValueError_time_out_of_range cs), []), [])"
    using time_out_of_range_rejected
            [where df = ?D and schema = ?S and escape = ?E and escape_all = ?EA
               and cursor = "[]" and table_name = "''T''" and table = "''T''" and ?c1.0 = "[]"
               and ?c2.0 = "[]" and ?cols1.0 = "[''t'']" and lib = plain_library and ts = False,
             OF h1 h2 esc1 esc2]
      ante
    by blast
  from h1 ex ev ok show ?thesis by blast
qed

end
